theory Spec2Isabelle
  imports Main "HOL-Library.Multiset" "HOL-Library.Product_Lexorder"
begin

section \<open>glyphsLib builder: data model\<close>

text \<open>
  A shallow embedding of \<^verbatim>\<open>third_party/glyphsLib/builder.py\<close>. Python values whose type
  is only known at run time (plist values of the source document, attribute values of
  the target font) are values of \<open>pvalue\<close>; dictionaries are maps, or association lists
  where the code iterates over them; every \<^verbatim>\<open>raise\<close> is a value \<open>Inl e\<close>.

  Strings are \<open>string\<close>, that is lists of 8-bit characters: a Python text is read as
  its UTF-8 bytes, and the case mappings below act on the ASCII letters only.
  Numbers of the source document (coordinates, zone positions, kerning values) are
  \<open>int\<close>. Dictionaries iterate in the order they are written (Python 3.7 and later).
  The one thing the builder does with a date is to format it with
  \<^verbatim>\<open>strftime('%Y/%m/%d %H:%M:%S')\<close>: a date is \<open>TimeV s\<close>, where \<open>s\<close> is that text.
\<close>

datatype error = KeyError | IndexError | AssertionError | TypeError | AttributeError | ValueError

datatype pvalue =
    NoneV
  | BoolV bool
  | IntV int
  | StrV string
  | ListV "pvalue list"
  | DictV "(string \<times> pvalue) list"
  | TimeV string

text \<open>The fields of the target font (a defcon \<^verbatim>\<open>Font\<close>) that the builder writes:
  the attributes of \<^verbatim>\<open>ufo.info\<close> by name, \<^verbatim>\<open>ufo.lib\<close>, \<^verbatim>\<open>ufo.groups\<close> and
  \<^verbatim>\<open>ufo.kerning\<close>.\<close>

record ufo =
  info :: "string \<rightharpoonup> pvalue"
  lib :: "string \<rightharpoonup> pvalue"
  groups :: "string \<rightharpoonup> string list"
  kerning :: "(string \<times> string) \<rightharpoonup> int"

text \<open>\<^verbatim>\<open>Font()\<close>: a new target font, nothing set.\<close>

definition Font :: ufo where
  "Font = \<lparr>info = Map.empty, lib = Map.empty, groups = Map.empty, kerning = Map.empty\<rparr>"

definition PUBLIC_PREFIX :: string where
  "PUBLIC_PREFIX = ''public.''"

definition GLYPHS_PREFIX :: string where
  "GLYPHS_PREFIX = ''com.schriftgestaltung.''"

section \<open>Blue values\<close>

text \<open>
  \<^verbatim>\<open>
  def set_blue_values(ufo, alignment_zones):
      blue_values = []
      other_blues = []
      for pos, size in sorted(alignment_zones):
          val_list = blue_values if pos == 0 or size >= 0 else other_blues
          val_list.extend(sorted((pos, pos + size)))
      ufo.info.postscriptBlueValues = blue_values
      ufo.info.postscriptOtherBlues = other_blues
  \<close>
  \<^verbatim>\<open>sorted\<close> on a list of pairs compares the pairs lexicographically, which is the
  order of \<open>Product_Lexorder\<close>. The loop carries the two lists.

  The two assignments at the end go through the info object of the font library
  (defcon), which checks a value before it stores it and raises a \<^verbatim>\<open>ValueError\<close> for one
  it refuses: \<^verbatim>\<open>postscriptBlueValues\<close> has to be a list of at most 14 numbers and
  \<^verbatim>\<open>postscriptOtherBlues\<close> one of at most 10, of an even count in both. An exception
  leaves \<^verbatim>\<open>set_blue_values\<close> and ends the translation.
\<close>

fun blue_loop :: "(int \<times> int) list \<Rightarrow> int list \<times> int list \<Rightarrow> int list \<times> int list" where
  "blue_loop [] acc = acc"
| "blue_loop ((pos, sz) # zs) (blue_values, other_blues) =
     (if pos = 0 \<or> sz \<ge> 0
      then blue_loop zs (blue_values @ sort [pos, pos + sz], other_blues)
      else blue_loop zs (blue_values, other_blues @ sort [pos, pos + sz]))"

definition blues_accepted :: "nat \<Rightarrow> int list \<Rightarrow> bool" where
  "blues_accepted limit vs = (length vs \<le> limit \<and> even (length vs))"

definition set_blue_values :: "ufo \<Rightarrow> (int \<times> int) list \<Rightarrow> error + ufo" where
  "set_blue_values u alignment_zones =
     (let (blue_values, other_blues) = blue_loop (sort alignment_zones) ([], [])
      in if \<not> blues_accepted 14 blue_values then Inl ValueError
         else if \<not> blues_accepted 10 other_blues then Inl ValueError
         else Inr (u\<lparr>info := (info u)(''postscriptBlueValues'' \<mapsto> ListV (map IntV blue_values),
                                       ''postscriptOtherBlues'' \<mapsto> ListV (map IntV other_blues))\<rparr>))"

text \<open>The claim about blue values, in the words of the specification: a zone is primary
  when its position is 0 or its size is not negative, and contributes its two end points
  in ascending order.\<close>

fun spec_zone_primary :: "int \<times> int \<Rightarrow> bool" where
  "spec_zone_primary (pos, sz) = (pos = 0 \<or> sz \<ge> 0)"

fun spec_zone_interval :: "int \<times> int \<Rightarrow> int list" where
  "spec_zone_interval (pos, sz) = [min pos (pos + sz), max pos (pos + sz)]"

section \<open>Python string operations\<close>

text \<open>\<^verbatim>\<open>s.startswith(p)\<close>, and \<^verbatim>\<open>p in s\<close> for texts.\<close>

fun startswith :: "string \<Rightarrow> string \<Rightarrow> bool" where
  "startswith s [] = True"
| "startswith [] (p # ps) = False"
| "startswith (c # cs) (p # ps) = (c = p \<and> startswith cs ps)"

fun str_contains :: "string \<Rightarrow> string \<Rightarrow> bool" where
  "str_contains [] p = (p = [])"
| "str_contains (c # cs) p = (startswith (c # cs) p \<or> str_contains cs p)"

text \<open>\<^verbatim>\<open>sep.join(xs)\<close>.\<close>

fun str_join :: "string \<Rightarrow> string list \<Rightarrow> string" where
  "str_join sep [] = []"
| "str_join sep [x] = x"
| "str_join sep (x # y # ys) = x @ sep @ str_join sep (y # ys)"

text \<open>\<^verbatim>\<open>s.replace(old, new)\<close> for a non-empty \<open>old\<close> (as at every call in the builder):
  the occurrences are replaced from left to right, without overlap. The counter is the
  number of characters of a replaced occurrence still to be passed over.\<close>

fun replace_from :: "nat \<Rightarrow> string \<Rightarrow> string \<Rightarrow> string \<Rightarrow> string" where
  "replace_from k old new [] = []"
| "replace_from (Suc k) old new (c # cs) = replace_from k old new cs"
| "replace_from 0 old new (c # cs) =
     (if startswith (c # cs) old then new @ replace_from (length old - 1) old new cs
      else c # replace_from 0 old new cs)"

definition str_replace :: "string \<Rightarrow> string \<Rightarrow> string \<Rightarrow> string" where
  "str_replace s old new = replace_from 0 old new s"

text \<open>\<^verbatim>\<open>s.split()\<close>: the maximal runs of characters that are not white space.\<close>

definition isspace :: "char \<Rightarrow> bool" where
  "isspace c = (c \<in> set [CHR '' '', CHR 0x09, CHR 0x0A, CHR 0x0B, CHR 0x0C, CHR 0x0D,
                          CHR 0x1C, CHR 0x1D, CHR 0x1E, CHR 0x1F])"

fun split_from :: "string \<Rightarrow> string \<Rightarrow> string list" where
  "split_from word [] = (if word = [] then [] else [word])"
| "split_from word (c # cs) =
     (if isspace c then (if word = [] then split_from [] cs else word # split_from [] cs)
      else split_from (word @ [c]) cs)"

definition str_split :: "string \<Rightarrow> string list" where
  "str_split s = split_from [] s"

text \<open>\<^verbatim>\<open>s.lower()\<close> and \<^verbatim>\<open>s.upper()\<close>, on the ASCII letters.\<close>

definition lower_char :: "char \<Rightarrow> char" where
  "lower_char c =
     (case map_of (zip ''ABCDEFGHIJKLMNOPQRSTUVWXYZ'' ''abcdefghijklmnopqrstuvwxyz'') c of
        Some d \<Rightarrow> d | None \<Rightarrow> c)"

definition upper_char :: "char \<Rightarrow> char" where
  "upper_char c =
     (case map_of (zip ''abcdefghijklmnopqrstuvwxyz'' ''ABCDEFGHIJKLMNOPQRSTUVWXYZ'') c of
        Some d \<Rightarrow> d | None \<Rightarrow> c)"

definition str_lower :: "string \<Rightarrow> string" where
  "str_lower s = map lower_char s"

definition str_upper :: "string \<Rightarrow> string" where
  "str_upper s = map upper_char s"

text \<open>\<^verbatim>\<open>re.search('(k1|k2|...)', name)\<close> for keys without special characters: the
  match is at the leftmost position where any key occurs, and there it is the first key
  of the alternation, in the order written, that occurs. The result is \<^verbatim>\<open>m.group(0)\<close>,
  or \<open>None\<close> when nothing matches.\<close>

fun re_search_alternatives :: "string list \<Rightarrow> string \<Rightarrow> string option" where
  "re_search_alternatives ks [] = find (\<lambda>k. startswith [] k) ks"
| "re_search_alternatives ks (c # cs) =
     (case find (\<lambda>k. startswith (c # cs) k) ks of
        Some k \<Rightarrow> Some k
      | None \<Rightarrow> re_search_alternatives ks cs)"

text \<open>\<^verbatim>\<open>re.match(prefix + '(.+)', s)\<close> for a literal prefix: \<^verbatim>\<open>.+\<close> takes as many
  characters other than a line feed as there are, and needs one. The result is
  \<^verbatim>\<open>match.group(1)\<close>.\<close>

definition re_match_prefix_rest :: "string \<Rightarrow> string \<Rightarrow> string option" where
  "re_match_prefix_rest prefix s =
     (if startswith s prefix
      then (let g = takeWhile (\<lambda>c. c \<noteq> CHR 0x0A) (drop (length prefix) s)
            in if g = [] then None else Some g)
      else None)"

text \<open>\<^verbatim>\<open>re.sub('^' + prefix, replacement, name)\<close> for a literal prefix and a
  replacement without escapes: only an occurrence at the start is replaced.\<close>

definition re_sub_prefix :: "string \<Rightarrow> string \<Rightarrow> string \<Rightarrow> string" where
  "re_sub_prefix prefix replacement name =
     (if startswith name prefix then replacement @ drop (length prefix) name else name)"

section \<open>Outlines\<close>

text \<open>A node of a path is the tuple \<^verbatim>\<open>(x, y, node_type, smooth)\<close>. A path is a
  dictionary with the keys \<^verbatim>\<open>closed\<close> and \<^verbatim>\<open>nodes\<close>, either of which may be
  absent. The pen is the list of the calls made on it, oldest first; \<^verbatim>\<open>addPoint\<close> has
  the segment type (\<^verbatim>\<open>None\<close> for an off-curve point) and the \<^verbatim>\<open>smooth\<close> argument,
  which the call for a \<^verbatim>\<open>move\<close> point does not pass.\<close>

type_synonym node = "int \<times> int \<times> string \<times> bool"

record path =
  closed :: "bool option"
  nodes :: "node list option"

datatype pen_call =
    BeginPath
  | AddPoint "int \<times> int" "string option" "bool option"
  | EndPath
  | AddComponent string pvalue

type_synonym pen = "pen_call list"

text \<open>
  \<^verbatim>\<open>
  def draw_paths(pen, paths):
      for path in paths:
          pen.beginPath()
          if not path.pop('closed', False):
              x, y, node_type, smooth = path['nodes'].pop(0)
              assert node_type == 'line', 'Open path starts with off-curve points'
              pen.addPoint((x, y), 'move')
          for x, y, node_type, smooth in path.pop('nodes'):
              if node_type not in ['line', 'curve']:
                  node_type = None
              pen.addPoint((x, y), node_type, smooth)
          pen.endPath()
  \<close>
  \<open>add_node\<close> is the body of the inner loop, \<open>draw_path\<close> the body of the outer one.
  An exception ends the whole drawing: the result is \<open>Inl\<close> of it.
\<close>

fun add_node :: "node \<Rightarrow> pen_call" where
  "add_node (x, y, node_type, smooth) =
     AddPoint (x, y) (if node_type \<notin> set [''line'', ''curve''] then None else Some node_type)
       (Some smooth)"

fun draw_nodes :: "pen \<Rightarrow> node list \<Rightarrow> pen" where
  "draw_nodes pen [] = pen"
| "draw_nodes pen (n # ns) = draw_nodes (pen @ [add_node n]) ns"

definition draw_path :: "pen \<Rightarrow> path \<Rightarrow> error + pen" where
  "draw_path pen p =
     (let pen1 = pen @ [BeginPath] in
      if \<not> (case closed p of None \<Rightarrow> False | Some b \<Rightarrow> b) then
        (case nodes p of
           None \<Rightarrow> Inl KeyError
         | Some [] \<Rightarrow> Inl IndexError
         | Some ((x, y, node_type, smooth) # rest) \<Rightarrow>
             if node_type \<noteq> ''line'' then Inl AssertionError
             else Inr (draw_nodes (pen1 @ [AddPoint (x, y) (Some ''move'') None]) rest @ [EndPath]))
      else
        (case nodes p of
           None \<Rightarrow> Inl KeyError
         | Some ns \<Rightarrow> Inr (draw_nodes pen1 ns @ [EndPath])))"

fun draw_paths :: "pen \<Rightarrow> path list \<Rightarrow> error + pen" where
  "draw_paths pen [] = Inr pen"
| "draw_paths pen (p # ps) =
     (case draw_path pen p of Inl e \<Rightarrow> Inl e | Inr pen' \<Rightarrow> draw_paths pen' ps)"

text \<open>What the claims about paths speak of: whether a path is marked closed, the type of
  its first node, and whether a call on the pen is a point, or a \<^verbatim>\<open>move\<close> point.\<close>

definition marked_closed :: "path \<Rightarrow> bool" where
  "marked_closed p = (closed p = Some True)"

definition first_node_type :: "path \<Rightarrow> string option" where
  "first_node_type p =
     (case nodes p of Some ((x, y, node_type, smooth) # rest) \<Rightarrow> Some node_type | _ \<Rightarrow> None)"

fun is_point :: "pen_call \<Rightarrow> bool" where
  "is_point (AddPoint pt kind smooth) = True"
| "is_point c = False"

fun is_move :: "pen_call \<Rightarrow> bool" where
  "is_move (AddPoint pt kind smooth) = (kind = Some ''move'')"
| "is_move c = False"

section \<open>Kerning groups\<close>

text \<open>
  \<^verbatim>\<open>
  def add_glyph_to_groups(kerning_groups, glyph_data):
      glyph_name = glyph_data['glyphname']
      group_keys = {
          '1': 'rightKerningGroup',
          '2': 'leftKerningGroup'}
      for side, group_key in group_keys.items():
          if group_key not in glyph_data:
              continue
          group = 'public.kern%s.%s' % (side, glyph_data.pop(group_key))
          kerning_groups[group] = kerning_groups.get(group, []) + [glyph_name]
  \<close>
  Of the glyph dictionary only the entries read here matter, and they are texts: the
  dictionary is a map from keys to texts. \<open>add_glyph_to_side\<close> is the body of the loop;
  the function returns both dictionaries as it leaves them.
\<close>

type_synonym kerning_groups = "string \<rightharpoonup> string list"

definition group_keys :: "(string \<times> string) list" where
  "group_keys = [(''1'', ''rightKerningGroup''), (''2'', ''leftKerningGroup'')]"

definition dict_get :: "('k \<rightharpoonup> 'v) \<Rightarrow> 'k \<Rightarrow> 'v \<Rightarrow> 'v" where
  "dict_get d k dflt = (case d k of None \<Rightarrow> dflt | Some v \<Rightarrow> v)"

definition add_glyph_to_side ::
  "string \<Rightarrow> string \<times> string \<Rightarrow> kerning_groups \<times> (string \<rightharpoonup> string)
     \<Rightarrow> kerning_groups \<times> (string \<rightharpoonup> string)" where
  "add_glyph_to_side glyph_name sk st =
     (case sk of (side, group_key) \<Rightarrow>
      case st of (kerning_groups, glyph_data) \<Rightarrow>
        (case glyph_data group_key of
           None \<Rightarrow> (kerning_groups, glyph_data)
         | Some v \<Rightarrow>
             (let group = ''public.kern'' @ side @ ''.'' @ v
              in (kerning_groups(group \<mapsto> dict_get kerning_groups group [] @ [glyph_name]),
                  glyph_data(group_key := None)))))"

fun add_glyph_to_sides ::
  "string \<Rightarrow> (string \<times> string) list \<Rightarrow> kerning_groups \<times> (string \<rightharpoonup> string)
     \<Rightarrow> kerning_groups \<times> (string \<rightharpoonup> string)" where
  "add_glyph_to_sides glyph_name [] st = st"
| "add_glyph_to_sides glyph_name (sk # sks) st =
     add_glyph_to_sides glyph_name sks (add_glyph_to_side glyph_name sk st)"

definition add_glyph_to_groups ::
  "kerning_groups \<Rightarrow> (string \<rightharpoonup> string) \<Rightarrow> error + kerning_groups \<times> (string \<rightharpoonup> string)" where
  "add_glyph_to_groups kerning_groups glyph_data =
     (case glyph_data ''glyphname'' of
        None \<Rightarrow> Inl KeyError
      | Some glyph_name \<Rightarrow>
          Inr (add_glyph_to_sides glyph_name group_keys (kerning_groups, glyph_data)))"

text \<open>The calls of \<^verbatim>\<open>add_glyph_to_groups\<close> that the glyph loop of \<^verbatim>\<open>to_ufos\<close> makes,
  one for each glyph of \<^verbatim>\<open>data['glyphs']\<close> in the order of the list, all on the same
  \<^verbatim>\<open>kerning_groups\<close>.\<close>

fun add_glyphs_to_groups ::
  "kerning_groups \<Rightarrow> (string \<rightharpoonup> string) list \<Rightarrow> error + kerning_groups" where
  "add_glyphs_to_groups kerning_groups [] = Inr kerning_groups"
| "add_glyphs_to_groups kerning_groups (glyph # glyphs) =
     (case add_glyph_to_groups kerning_groups glyph of
        Inl e \<Rightarrow> Inl e
      | Inr (kerning_groups', glyph') \<Rightarrow> add_glyphs_to_groups kerning_groups' glyphs)"


text \<open>The names of the glyphs among \<open>glyphs\<close> that declare the group \<open>v\<close> under the key
  \<open>group_key\<close>, in the order of the list.\<close>

definition declared_members :: "string \<Rightarrow> string \<Rightarrow> (string \<rightharpoonup> string) list \<Rightarrow> string list" where
  "declared_members group_key v glyphs =
     concat (map (\<lambda>g. case g ''glyphname'' of None \<Rightarrow> [] | Some n \<Rightarrow> [n])
                 (filter (\<lambda>g. g group_key = Some v) glyphs))"

section \<open>Style names\<close>

definition WEIGHT_CODES :: "(string \<times> int) list" where
  "WEIGHT_CODES =
     [(''Thin'', 250), (''Light'', 300), (''SemiLight'', 350), (''DemiLight'', 350),
      ('''', 400), (''Regular'', 400), (''Medium'', 500), (''DemiBold'', 600),
      (''SemiBold'', 600), (''Bold'', 700), (''ExtraBold'', 800), (''Extra Bold'', 800),
      (''Black'', 900)]"

definition WIDTH_CODES :: "(string \<times> int) list" where
  "WIDTH_CODES =
     [(''Extra Condensed'', 2), (''Cd'', 3), (''Cond'', 3), (''Condensed'', 3),
      (''Narrow'', 4), (''SemiCondensed'', 4), ('''', 5)]"

text \<open>Truth of a value in a condition, and \<^verbatim>\<open>d.pop(key, default)\<close>.\<close>

fun truthy :: "pvalue \<Rightarrow> bool" where
  "truthy NoneV = False"
| "truthy (BoolV b) = b"
| "truthy (IntV n) = (n \<noteq> 0)"
| "truthy (StrV s) = (s \<noteq> [])"
| "truthy (ListV xs) = (xs \<noteq> [])"
| "truthy (DictV kvs) = (kvs \<noteq> [])"
| "truthy (TimeV s) = True"

definition dict_pop :: "('k \<rightharpoonup> 'v) \<Rightarrow> 'k \<Rightarrow> 'v \<Rightarrow> 'v \<times> ('k \<rightharpoonup> 'v)" where
  "dict_pop d k dflt = (dict_get d k dflt, d(k := None))"

text \<open>\<^verbatim>\<open>' '.join(...)\<close> of values: every one of them has to be a text.\<close>

fun texts_of :: "pvalue list \<Rightarrow> error + string list" where
  "texts_of [] = Inr []"
| "texts_of (StrV s # vs) = (case texts_of vs of Inl e \<Rightarrow> Inl e | Inr ss \<Rightarrow> Inr (s # ss))"
| "texts_of (v # vs) = Inl TypeError"

text \<open>
  \<^verbatim>\<open>
  def build_style_name(data, width_key, weight_key, custom_key, italic):
      italic = 'Italic' if italic else ''
      width = data.pop(width_key, '')
      weight = data.pop(weight_key, 'Regular')
      custom = data.pop(custom_key, '')
      if (italic or width or custom) and weight == 'Regular':
          weight = ''
      return ' '.join(s for s in (width, weight, custom, italic) if s)
  \<close>
  The result is the style name and the dictionary without the three keys.
\<close>

definition build_style_name ::
  "(string \<rightharpoonup> pvalue) \<Rightarrow> string \<Rightarrow> string \<Rightarrow> string \<Rightarrow> bool
     \<Rightarrow> error + string \<times> (string \<rightharpoonup> pvalue)" where
  "build_style_name data width_key weight_key custom_key italic =
     (let italic_s = StrV (if italic then ''Italic'' else '''');
          (width, data1) = dict_pop data width_key (StrV '''');
          (weight, data2) = dict_pop data1 weight_key (StrV ''Regular'');
          (custom, data3) = dict_pop data2 custom_key (StrV '''');
          weight' = (if (truthy italic_s \<or> truthy width \<or> truthy custom)
                        \<and> weight = StrV ''Regular''
                     then StrV '''' else weight)
      in case texts_of (filter truthy [width, weight', custom, italic_s]) of
           Inl e \<Rightarrow> Inl e
         | Inr ss \<Rightarrow> Inr (str_join '' '' ss, data3))"

text \<open>
  \<^verbatim>\<open>
  def parse_style_attrs(name):
      attrs = []
      for codes in (WIDTH_CODES, WEIGHT_CODES):
          m = re.search('(%s)' % '|'.join(k for k in codes.keys() if k), name)
          attrs.append(m.group(0) if m else '')
      return attrs
  \<close>
  The list of two texts is returned as a pair.
\<close>

definition search_codes :: "(string \<times> int) list \<Rightarrow> string \<Rightarrow> string" where
  "search_codes codes name =
     (case re_search_alternatives (filter (\<lambda>k. k \<noteq> []) (map fst codes)) name of
        Some k \<Rightarrow> k | None \<Rightarrow> [])"

definition parse_style_attrs :: "string \<Rightarrow> string \<times> string" where
  "parse_style_attrs name = (search_codes WIDTH_CODES name, search_codes WEIGHT_CODES name)"

text \<open>
  \<^verbatim>\<open>
  def set_redundant_data(ufo):
      family_name, style_name = ufo.info.familyName, ufo.info.styleName

      width, weight = parse_style_attrs(style_name)
      ufo.info.openTypeOS2WidthClass = WIDTH_CODES[width]
      ufo.info.openTypeOS2WeightClass = WEIGHT_CODES[weight]

      if weight and weight != 'Regular':
          ufo.lib[GLYPHS_PREFIX + 'weight'] = weight
      if width:
          ufo.lib[GLYPHS_PREFIX + 'width'] = width

      if style_name.lower() in ['regular', 'bold', 'italic', 'bold italic']:
          ufo.info.styleMapStyleName = style_name.lower()
          ufo.info.styleMapFamilyName = family_name
      else:
          ufo.info.styleMapStyleName = ' '.join(s for s in (
              'bold' if weight == 'Bold' else '',
              'italic' if 'Italic' in style_name else '') if s) or 'regular'
          ufo.info.styleMapFamilyName = ' '.join(
              [family_name] +
              style_name.replace('Bold', '').replace('Italic', '').split())
      ufo.info.openTypeNamePreferredFamilyName = family_name
      ufo.info.openTypeNamePreferredSubfamilyName = style_name
  \<close>
  An attribute of \<^verbatim>\<open>ufo.info\<close> that was never set reads as \<^verbatim>\<open>None\<close>. A style name that
  is not a text makes \<^verbatim>\<open>re.search\<close> raise, and so does a family name that is not a text
  in the \<^verbatim>\<open>join\<close>.
\<close>

definition info_attr :: "ufo \<Rightarrow> string \<Rightarrow> pvalue" where
  "info_attr u name = dict_get (info u) name NoneV"

definition set_info :: "string \<Rightarrow> pvalue \<Rightarrow> ufo \<Rightarrow> ufo" where
  "set_info name v u = u\<lparr>info := (info u)(name \<mapsto> v)\<rparr>"

definition set_lib :: "string \<Rightarrow> pvalue \<Rightarrow> ufo \<Rightarrow> ufo" where
  "set_lib key v u = u\<lparr>lib := (lib u)(key \<mapsto> v)\<rparr>"

definition style_map_style_name :: "string \<Rightarrow> string \<Rightarrow> string" where
  "style_map_style_name weight style_name =
     (let j = str_join '' '' (filter (\<lambda>s. s \<noteq> [])
                [if weight = ''Bold'' then ''bold'' else '''',
                 if str_contains style_name ''Italic'' then ''italic'' else ''''])
      in if j \<noteq> [] then j else ''regular'')"

definition set_redundant_data :: "ufo \<Rightarrow> error + ufo" where
  "set_redundant_data u =
     (let family_name = info_attr u ''familyName'' in
      case info_attr u ''styleName'' of
        StrV style_name \<Rightarrow>
          (case parse_style_attrs style_name of (width, weight) \<Rightarrow>
           case map_of WIDTH_CODES width of
             None \<Rightarrow> Inl KeyError
           | Some width_class \<Rightarrow>
           case map_of WEIGHT_CODES weight of
             None \<Rightarrow> Inl KeyError
           | Some weight_class \<Rightarrow>
             (let u1 = set_info ''openTypeOS2WidthClass'' (IntV width_class) u;
                  u2 = set_info ''openTypeOS2WeightClass'' (IntV weight_class) u1;
                  u3 = (if weight \<noteq> [] \<and> weight \<noteq> ''Regular''
                        then set_lib (GLYPHS_PREFIX @ ''weight'') (StrV weight) u2 else u2);
                  u4 = (if width \<noteq> []
                        then set_lib (GLYPHS_PREFIX @ ''width'') (StrV width) u3 else u3);
                  preferred = (\<lambda>v.
                     set_info ''openTypeNamePreferredSubfamilyName'' (StrV style_name)
                       (set_info ''openTypeNamePreferredFamilyName'' family_name v))
              in if str_lower style_name \<in> set [''regular'', ''bold'', ''italic'', ''bold italic'']
                 then Inr (preferred
                        (set_info ''styleMapFamilyName'' family_name
                          (set_info ''styleMapStyleName'' (StrV (str_lower style_name)) u4)))
                 else
                   (let u5 = set_info ''styleMapStyleName''
                               (StrV (style_map_style_name weight style_name)) u4
                    in case family_name of
                         StrV family \<Rightarrow>
                           Inr (preferred
                             (set_info ''styleMapFamilyName''
                               (StrV (str_join '' ''
                                  ([family] @ str_split (str_replace
                                      (str_replace style_name ''Bold'' '''') ''Italic'' ''''))))
                               u5))
                       | _ \<Rightarrow> Inl TypeError)))
      | _ \<Rightarrow> Inl TypeError)"

text \<open>The style name built from a width and a weight token alone (no custom token, not
  italic): the tokens that are not empty, joined by a space, without a weight
  \<^verbatim>\<open>Regular\<close> that follows a width.\<close>

definition style_of_tokens :: "string \<Rightarrow> string \<Rightarrow> string" where
  "style_of_tokens w wt =
     str_join '' '' (filter (\<lambda>s. s \<noteq> []) [w, if w \<noteq> [] \<and> wt = ''Regular'' then [] else wt])"

section \<open>Custom parameters\<close>

text \<open>A dictionary inside a \<open>pvalue\<close> is an association list:
  \<^verbatim>\<open>p.pop(key)\<close> gives the value and the list without the key.\<close>

definition alist_pop :: "(string \<times> pvalue) list \<Rightarrow> string \<Rightarrow> error + pvalue \<times> (string \<times> pvalue) list" where
  "alist_pop kvs key =
     (case map_of kvs key of
        None \<Rightarrow> Inl KeyError
      | Some v \<Rightarrow> Inr (v, filter (\<lambda>kv. fst kv \<noteq> key) kvs))"

text \<open>
  \<^verbatim>\<open>
  def parse_custom_params(data, misc_keys):
      params = []
      for p in data.get('customParameters', []):
          params.append((p.pop('name'), p.pop('value')))
      for key in misc_keys:
          try:
              val = data.pop(key)
          except KeyError:
              continue
          params.append((key, val))
      return params
  \<close>
  The result is the list of pairs, and \<^verbatim>\<open>data\<close> as the function leaves it. A
  \<^verbatim>\<open>customParameters\<close> that is a list is run through; an empty text or dictionary
  gives no parameter, any other text or dictionary fails at \<^verbatim>\<open>p.pop\<close>, and a value
  that cannot be iterated raises a \<^verbatim>\<open>TypeError\<close>.
\<close>

fun pop_params ::
  "pvalue list \<Rightarrow> error + (pvalue \<times> pvalue) list \<times> pvalue list" where
  "pop_params [] = Inr ([], [])"
| "pop_params (DictV kvs # ps) =
     (case alist_pop kvs ''name'' of
        Inl e \<Rightarrow> Inl e
      | Inr (name, kvs1) \<Rightarrow>
     (case alist_pop kvs1 ''value'' of
        Inl e \<Rightarrow> Inl e
      | Inr (val, kvs2) \<Rightarrow>
     (case pop_params ps of
        Inl e \<Rightarrow> Inl e
      | Inr (params, ps') \<Rightarrow> Inr ((name, val) # params, DictV kvs2 # ps'))))"
| "pop_params (p # ps) = Inl AttributeError"

fun pop_misc ::
  "string list \<Rightarrow> (string \<rightharpoonup> pvalue) \<Rightarrow> (pvalue \<times> pvalue) list \<times> (string \<rightharpoonup> pvalue)" where
  "pop_misc [] data = ([], data)"
| "pop_misc (key # keys) data =
     (case data key of
        None \<Rightarrow> pop_misc keys data
      | Some val \<Rightarrow>
          (case pop_misc keys (data(key := None)) of
             (params, data') \<Rightarrow> ((StrV key, val) # params, data')))"

definition parse_custom_params ::
  "(string \<rightharpoonup> pvalue) \<Rightarrow> string list
     \<Rightarrow> error + (pvalue \<times> pvalue) list \<times> (string \<rightharpoonup> pvalue)" where
  "parse_custom_params data misc_keys =
     (case (case data ''customParameters'' of
              None \<Rightarrow> Inr ([], data)
            | Some (ListV ps) \<Rightarrow>
                (case pop_params ps of
                   Inl e \<Rightarrow> Inl e
                 | Inr (params, ps') \<Rightarrow> Inr (params, data(''customParameters'' \<mapsto> ListV ps')))
            | Some (StrV s) \<Rightarrow> if s = [] then Inr ([], data) else Inl AttributeError
            | Some (DictV kvs) \<Rightarrow> if kvs = [] then Inr ([], data) else Inl AttributeError
            | Some v \<Rightarrow> Inl TypeError) of
        Inl e \<Rightarrow> Inl e
      | Inr (params, data1) \<Rightarrow>
          (case pop_misc misc_keys data1 of
             (misc, data2) \<Rightarrow> Inr (params @ misc, data2)))"

text \<open>
  \<^verbatim>\<open>
  def normalize_custom_param_name(name):
      replacements = (
          ('\u2018', "'"), ('\u2019', "'"), ('\u201C', '"'), ('\u201D', '"'))
      for orig, replacement in replacements:
          name = name.replace(orig, replacement)
      return name
  \<close>
  The four curved quotes are written as their UTF-8 bytes.
\<close>

definition replacements :: "(string \<times> string) list" where
  "replacements =
     [([CHR 0xE2, CHR 0x80, CHR 0x98], [CHR 0x27]), ([CHR 0xE2, CHR 0x80, CHR 0x99], [CHR 0x27]),
      ([CHR 0xE2, CHR 0x80, CHR 0x9C], [CHR 0x22]), ([CHR 0xE2, CHR 0x80, CHR 0x9D], [CHR 0x22])]"

definition normalize_custom_param_name :: "string \<Rightarrow> string" where
  "normalize_custom_param_name name =
     foldl (\<lambda>name (orig, replacement). str_replace name orig replacement) name replacements"

text \<open>
  \<^verbatim>\<open>
  def set_custom_params(ufo, parsed=None, data=None, misc_keys=(), non_info=()):
      if parsed is None:
          parsed = parse_custom_params(data or {}, misc_keys)
      else:
          assert data is None, "Shouldn't provide parsed data and data to parse."

      for name, value in parsed:
          name = normalize_custom_param_name(name)

          # deal with any Glyphs naming quirks here
          if name == 'disablesNiceNames':
              name = 'useNiceNames'
              value = int(not value)

          opentype_attr_prefix_pairs = (
              ('hhea', 'Hhea'), ('description', 'NameDescription'),
              ('license', 'NameLicense'), ('panose', 'OS2Panose'),
              ('typo', 'OS2Typo'), ('unicodeRanges', 'OS2UnicodeRanges'),
              ('win', 'OS2Win'), ('vendorID', 'OS2VendorID'),
              ('versionString', 'NameVersion'), ('fsType', 'OS2Type'))
          for glyphs_prefix, ufo_prefix in opentype_attr_prefix_pairs:
              name = re.sub(
                  '^' + glyphs_prefix, 'openType' + ufo_prefix, name)

          postscript_attrs = ('underlinePosition', 'underlineThickness')
          if name in postscript_attrs:
              name = 'postscript' + name[0].upper() + name[1:]

          # enforce that winAscent/Descent are positive, according to UFO spec
          if name.startswith('openTypeOS2Win') and value < 0:
              value = -value

          # most OpenType table entries go in the info object
          if hasattr(ufo.info, name) and name not in non_info:
              setattr(ufo.info, name, value)

          # everything else gets dumped in the lib
          else:
              ufo.lib[GLYPHS_PREFIX + name] = value
  \<close>
  Which names are attributes of the info object is decided by the class of that object,
  which belongs to the font library and not to the builder: it is the parameter
  \<open>has_attr\<close>. A name that is not a text has no \<^verbatim>\<open>replace\<close>; the comparison
  \<^verbatim>\<open>value < 0\<close> is between numbers (a truth value counts as 0 or 1) and raises a
  \<^verbatim>\<open>TypeError\<close> for any other value. \<open>rewrite_param\<close> is the part of the loop body
  that computes the name and the value, \<open>set_custom_param\<close> the whole body.
\<close>

definition opentype_attr_prefix_pairs :: "(string \<times> string) list" where
  "opentype_attr_prefix_pairs =
     [(''hhea'', ''Hhea''), (''description'', ''NameDescription''),
      (''license'', ''NameLicense''), (''panose'', ''OS2Panose''),
      (''typo'', ''OS2Typo''), (''unicodeRanges'', ''OS2UnicodeRanges''),
      (''win'', ''OS2Win''), (''vendorID'', ''OS2VendorID''),
      (''versionString'', ''NameVersion''), (''fsType'', ''OS2Type'')]"

definition postscript_attrs :: "string list" where
  "postscript_attrs = [''underlinePosition'', ''underlineThickness'']"

definition rewrite_param :: "pvalue \<Rightarrow> pvalue \<Rightarrow> error + string \<times> pvalue" where
  "rewrite_param name0 value0 =
     (case name0 of
        StrV n \<Rightarrow>
          (let name1 = normalize_custom_param_name n;
               (name2, value2) =
                  (if name1 = ''disablesNiceNames''
                   then (''useNiceNames'', IntV (if truthy value0 then 0 else 1))
                   else (name1, value0));
               name3 = foldl (\<lambda>name (glyphs_prefix, ufo_prefix).
                           re_sub_prefix glyphs_prefix (''openType'' @ ufo_prefix) name)
                         name2 opentype_attr_prefix_pairs;
               name4 = (if name3 \<in> set postscript_attrs
                        then ''postscript'' @ str_upper (take 1 name3) @ drop 1 name3
                        else name3)
           in if startswith name4 ''openTypeOS2Win''
              then (case value2 of
                      IntV i \<Rightarrow> Inr (name4, if i < 0 then IntV (- i) else IntV i)
                    | BoolV b \<Rightarrow> Inr (name4, BoolV b)
                    | _ \<Rightarrow> Inl TypeError)
              else Inr (name4, value2))
      | _ \<Rightarrow> Inl AttributeError)"

definition set_custom_param ::
  "(string \<Rightarrow> bool) \<Rightarrow> string list \<Rightarrow> ufo \<Rightarrow> pvalue \<times> pvalue \<Rightarrow> error + ufo" where
  "set_custom_param has_attr non_info u nv =
     (case rewrite_param (fst nv) (snd nv) of
        Inl e \<Rightarrow> Inl e
      | Inr (name, val) \<Rightarrow>
          if has_attr name \<and> name \<notin> set non_info
          then Inr (set_info name val u)
          else Inr (set_lib (GLYPHS_PREFIX @ name) val u))"

fun set_parsed_params ::
  "(string \<Rightarrow> bool) \<Rightarrow> string list \<Rightarrow> ufo \<Rightarrow> (pvalue \<times> pvalue) list \<Rightarrow> error + ufo" where
  "set_parsed_params has_attr non_info u [] = Inr u"
| "set_parsed_params has_attr non_info u (nv # parsed) =
     (case set_custom_param has_attr non_info u nv of
        Inl e \<Rightarrow> Inl e
      | Inr u' \<Rightarrow> set_parsed_params has_attr non_info u' parsed)"

definition set_custom_params ::
  "(string \<Rightarrow> bool) \<Rightarrow> ufo \<Rightarrow> (pvalue \<times> pvalue) list option \<Rightarrow> (string \<rightharpoonup> pvalue) option
     \<Rightarrow> string list \<Rightarrow> string list \<Rightarrow> error + ufo \<times> (string \<rightharpoonup> pvalue) option" where
  "set_custom_params has_attr u parsed data misc_keys non_info =
     (case parsed of
        None \<Rightarrow>
          (case parse_custom_params (case data of None \<Rightarrow> Map.empty | Some d \<Rightarrow> d) misc_keys of
             Inl e \<Rightarrow> Inl e
           | Inr (params, data') \<Rightarrow>
               (case set_parsed_params has_attr non_info u params of
                  Inl e \<Rightarrow> Inl e
                | Inr u' \<Rightarrow> Inr (u', map_option (\<lambda>d. data') data)))
      | Some params \<Rightarrow>
          if data \<noteq> None then Inl AssertionError
          else (case set_parsed_params has_attr non_info u params of
                  Inl e \<Rightarrow> Inl e
                | Inr u' \<Rightarrow> Inr (u', None)))"

section \<open>Kerning\<close>

text \<open>The builder's warnings are the values of \<open>warning\<close>, in the order in which they are
  printed: one for a class that is not a group of the font, with the name of the group,
  and one for two conflicting rules, with the style name of the master, the pair of
  glyphs, the rule seen before and the rule at hand. A rule is
  \<^verbatim>\<open>(left, right, value)\<close>.\<close>

type_synonym kerning_rule = "string \<times> string \<times> int"

datatype warning =
    NonExistentClass string
  | ConflictingRules pvalue "string \<times> string" kerning_rule kerning_rule

text \<open>
  \<^verbatim>\<open>
  def remove_rule_if_conflict(ufo, seen, classname, glyph, is_left_class):
      original_pair = (classname, glyph) if is_left_class else (glyph, classname)
      val = ufo.kerning[original_pair]
      rule = original_pair + (val,)

      old_glyphs = ufo.groups[classname]
      new_glyphs = []
      for member in old_glyphs:
          pair = (member, glyph) if is_left_class else (glyph, member)
          existing_rule = seen.get(pair)
          if (existing_rule is not None and
              existing_rule[-1] != val and
              pair not in ufo.kerning):
              warn('Conflicting kerning rules found in %s master for glyph pair '
                   '"%s, %s" (%s and %s), removing pair from latter rule' %
                   ((ufo.info.styleName,) + pair + (existing_rule, rule)))
          else:
              new_glyphs.append(member)
              seen[pair] = rule

      if new_glyphs != old_glyphs:
          del ufo.kerning[original_pair]
          for member in new_glyphs:
              pair = (member, glyph) if is_left_class else (glyph, member)
              ufo.kerning[pair] = val
  \<close>
  \<open>check_members\<close> is the first loop, carrying \<^verbatim>\<open>new_glyphs\<close>, \<^verbatim>\<open>seen\<close> and the
  warnings; \<open>set_member_pairs\<close> is the second.
\<close>

type_synonym seen = "(string \<times> string) \<rightharpoonup> kerning_rule"

definition member_pair :: "bool \<Rightarrow> string \<Rightarrow> string \<Rightarrow> string \<times> string" where
  "member_pair is_left_class member glyph =
     (if is_left_class then (member, glyph) else (glyph, member))"

fun check_members ::
  "ufo \<Rightarrow> kerning_rule \<Rightarrow> string \<Rightarrow> bool \<Rightarrow> string list
     \<Rightarrow> string list \<times> seen \<times> warning list \<Rightarrow> string list \<times> seen \<times> warning list" where
  "check_members u rule glyph is_left_class [] st = st"
| "check_members u rule glyph is_left_class (member # members) (new_glyphs, seen, warnings) =
     (let pair = member_pair is_left_class member glyph;
          keep = (new_glyphs @ [member], seen(pair \<mapsto> rule), warnings)
      in case seen pair of
           None \<Rightarrow> check_members u rule glyph is_left_class members keep
         | Some existing_rule \<Rightarrow>
             if snd (snd existing_rule) \<noteq> snd (snd rule) \<and> kerning u pair = None
             then check_members u rule glyph is_left_class members
                    (new_glyphs, seen,
                     warnings @ [ConflictingRules (info_attr u ''styleName'') pair
                                   existing_rule rule])
             else check_members u rule glyph is_left_class members keep)"

fun set_member_pairs :: "ufo \<Rightarrow> int \<Rightarrow> string \<Rightarrow> bool \<Rightarrow> string list \<Rightarrow> ufo" where
  "set_member_pairs u val glyph is_left_class [] = u"
| "set_member_pairs u val glyph is_left_class (member # members) =
     set_member_pairs
       (u\<lparr>kerning := (kerning u)(member_pair is_left_class member glyph \<mapsto> val)\<rparr>)
       val glyph is_left_class members"

definition remove_rule_if_conflict ::
  "ufo \<Rightarrow> seen \<Rightarrow> warning list \<Rightarrow> string \<Rightarrow> string \<Rightarrow> bool
     \<Rightarrow> error + ufo \<times> seen \<times> warning list" where
  "remove_rule_if_conflict u seen warnings classname glyph is_left_class =
     (let original_pair = (if is_left_class then (classname, glyph) else (glyph, classname)) in
      case kerning u original_pair of
        None \<Rightarrow> Inl KeyError
      | Some val \<Rightarrow>
     (let rule = (fst original_pair, snd original_pair, val) in
      case groups u classname of
        None \<Rightarrow> Inl KeyError
      | Some old_glyphs \<Rightarrow>
          (case check_members u rule glyph is_left_class old_glyphs ([], seen, warnings) of
             (new_glyphs, seen', warnings') \<Rightarrow>
               if new_glyphs \<noteq> old_glyphs
               then Inr (set_member_pairs (u\<lparr>kerning := (kerning u)(original_pair := None)\<rparr>)
                           val glyph is_left_class new_glyphs,
                         seen', warnings')
               else Inr (u, seen', warnings'))))"

text \<open>
  \<^verbatim>\<open>
  def load_kerning(ufo, kerning_data):
      warning_msg = 'Non-existent glyph class %s found in kerning rules.'
      class_glyph_pairs = []

      for left, pairs in kerning_data.items():
          match = re.match(r'@MMK_L_(.+)', left)
          left_is_class = bool(match)
          if left_is_class:
              left = 'public.kern1.%s' % match.group(1)
              if left not in ufo.groups:
                  warn(warning_msg % left)
                  continue
          for right, kerning_val in pairs.items():
              match = re.match(r'@MMK_R_(.+)', right)
              right_is_class = bool(match)
              if right_is_class:
                  right = 'public.kern2.%s' % match.group(1)
                  if right not in ufo.groups:
                      warn(warning_msg % right)
                      continue
              if left_is_class != right_is_class:
                  if left_is_class:
                      pair = (left, right, True)
                  else:
                      pair = (right, left, False)
                  class_glyph_pairs.append(pair)
              ufo.kerning[left, right] = kerning_val

      seen = {}
      for classname, glyph, is_left_class in reversed(class_glyph_pairs):
          remove_rule_if_conflict(ufo, seen, classname, glyph, is_left_class)
  \<close>
  The kerning data are a dictionary of dictionaries, run through in their order: an
  association list of association lists. \<open>load_pairs\<close> is the inner loop and
  \<open>load_lefts\<close> the outer one, both carrying the font, \<^verbatim>\<open>class_glyph_pairs\<close> and the
  warnings; \<open>remove_conflicts\<close> is the last loop.
\<close>

type_synonym load_state = "ufo \<times> (string \<times> string \<times> bool) list \<times> warning list"

fun load_pairs :: "string \<Rightarrow> bool \<Rightarrow> (string \<times> int) list \<Rightarrow> load_state \<Rightarrow> load_state" where
  "load_pairs left left_is_class [] st = st"
| "load_pairs left left_is_class ((right0, kerning_val) # pairs) (u, class_glyph_pairs, warnings) =
     (let match = re_match_prefix_rest ''@MMK_R_'' right0;
          right_is_class = (match \<noteq> None);
          right = (case match of Some g \<Rightarrow> ''public.kern2.'' @ g | None \<Rightarrow> right0)
      in if right_is_class \<and> groups u right = None
         then load_pairs left left_is_class pairs
                (u, class_glyph_pairs, warnings @ [NonExistentClass right])
         else load_pairs left left_is_class pairs
                (u\<lparr>kerning := (kerning u)((left, right) \<mapsto> kerning_val)\<rparr>,
                 (if left_is_class \<noteq> right_is_class
                  then class_glyph_pairs @
                         [if left_is_class then (left, right, True) else (right, left, False)]
                  else class_glyph_pairs),
                 warnings))"

fun load_lefts :: "(string \<times> (string \<times> int) list) list \<Rightarrow> load_state \<Rightarrow> load_state" where
  "load_lefts [] st = st"
| "load_lefts ((left0, pairs) # kerning_data) (u, class_glyph_pairs, warnings) =
     (let match = re_match_prefix_rest ''@MMK_L_'' left0;
          left_is_class = (match \<noteq> None);
          left = (case match of Some g \<Rightarrow> ''public.kern1.'' @ g | None \<Rightarrow> left0)
      in if left_is_class \<and> groups u left = None
         then load_lefts kerning_data (u, class_glyph_pairs, warnings @ [NonExistentClass left])
         else load_lefts kerning_data
                (load_pairs left left_is_class pairs (u, class_glyph_pairs, warnings)))"

fun remove_conflicts ::
  "(string \<times> string \<times> bool) list \<Rightarrow> ufo \<times> seen \<times> warning list
     \<Rightarrow> error + ufo \<times> seen \<times> warning list" where
  "remove_conflicts [] st = Inr st"
| "remove_conflicts ((classname, glyph, is_left_class) # rest) (u, seen, warnings) =
     (case remove_rule_if_conflict u seen warnings classname glyph is_left_class of
        Inl e \<Rightarrow> Inl e
      | Inr st' \<Rightarrow> remove_conflicts rest st')"

definition load_kerning ::
  "ufo \<Rightarrow> (string \<times> (string \<times> int) list) list \<Rightarrow> error + ufo \<times> warning list" where
  "load_kerning u kerning_data =
     (case load_lefts kerning_data (u, [], []) of
        (u1, class_glyph_pairs, warnings) \<Rightarrow>
          (case remove_conflicts (rev class_glyph_pairs) (u1, Map.empty, warnings) of
             Inl e \<Rightarrow> Inl e
           | Inr (u2, seen, warnings') \<Rightarrow> Inr (u2, warnings')))"

text \<open>Whether a warning is about a conflict on the pair of glyphs \<open>pair\<close>.\<close>

fun is_conflict_on :: "string \<times> string \<Rightarrow> warning \<Rightarrow> bool" where
  "is_conflict_on pair (ConflictingRules style pair' existing_rule rule) = (pair' = pair)"
| "is_conflict_on pair (NonExistentClass name) = False"

section \<open>Glyphs\<close>

text \<open>The error monad of the functions that can raise.\<close>

definition bind :: "error + 'a \<Rightarrow> ('a \<Rightarrow> error + 'b) \<Rightarrow> error + 'b" where
  "bind r f = (case r of Inl e \<Rightarrow> Inl e | Inr x \<Rightarrow> f x)"

text \<open>The dictionaries of a layer of the source: components, anchors, guidelines, and
  the layer itself, each key present or not. The background of a layer is a dictionary
  with the keys of a layer: the type of a layer has the type of its background as a
  parameter.\<close>

record component =
  component_name :: "string option"
  component_transform :: "pvalue option"
  component_disableAlignment :: "pvalue option"
  component_locked :: "pvalue option"

record anchor =
  anchor_position :: "(int \<times> int) option"
  anchor_name :: "string option"

record guideline =
  guideline_position :: "(int \<times> int) option"
  guideline_angle :: "int option"

record 'bg layer =
  leftMetricsKey :: "pvalue option"
  rightMetricsKey :: "pvalue option"
  widthMetricsKey :: "pvalue option"
  width :: "int option"
  guideLines :: "guideline list option"
  background :: "'bg option"
  annotations :: "pvalue option"
  hints :: "pvalue option"
  components :: "component list option"
  paths :: "path list option"
  anchors :: "anchor list option"

type_synonym background_layer = "unit layer"
type_synonym master_layer = "background_layer layer"

text \<open>A glyph of the target font: its name, the name of the layer it is in, its
  attributes, its lib, the calls made on its pen, its anchors \<^verbatim>\<open>(name, x, y)\<close> and its
  guidelines \<^verbatim>\<open>(x, y, angle)\<close>. The layers of the font are a map from the name of a layer
  to its glyphs by name. \<open>newGlyph\<close> is what \<^verbatim>\<open>layer.newGlyph(name)\<close> makes.\<close>

record glyph =
  glyph_name :: string
  glyph_layer :: string
  glyph_unicode :: pvalue
  glyph_note :: pvalue
  glyph_width :: int
  glyph_lib :: "string \<rightharpoonup> pvalue"
  glyph_pen :: pen
  glyph_anchors :: "(string \<times> int \<times> int) list"
  glyph_guidelines :: "(int \<times> int \<times> int) list"

type_synonym font_layers = "string \<rightharpoonup> (string \<rightharpoonup> glyph)"

definition newGlyph :: "string \<Rightarrow> string \<Rightarrow> glyph" where
  "newGlyph layer_name name =
     \<lparr>glyph_name = name, glyph_layer = layer_name, glyph_unicode = NoneV, glyph_note = NoneV,
      glyph_width = 0, glyph_lib = Map.empty, glyph_pen = [], glyph_anchors = [],
      glyph_guidelines = []\<rparr>"

definition set_glyph_lib :: "string \<Rightarrow> pvalue \<Rightarrow> glyph \<Rightarrow> glyph" where
  "set_glyph_lib key v g = g\<lparr>glyph_lib := (glyph_lib g)(key \<mapsto> v)\<rparr>"

definition GLYPHS_COLORS :: "string list" where
  "GLYPHS_COLORS =
     [''0.85,0.26,0.06,1'',
      ''0.99,0.62,0.11,1'',
      ''0.65,0.48,0.2,1'',
      ''0.97,1,0,1'',
      ''0.67,0.95,0.38,1'',
      ''0.04,0.57,0.04,1'',
      ''0,0.67,0.91,1'',
      ''0.18,0.16,0.78,1'',
      ''0.5,0.09,0.79,1'',
      ''0.98,0.36,0.67,1'',
      ''0.75,0.75,0.75,1'',
      ''0.25,0.25,0.25,1'']"

text \<open>
  \<^verbatim>\<open>
  def to_ufo_time(datetime_obj):
      return datetime_obj.strftime('%Y/%m/%d %H:%M:%S')
  \<close>\<close>

definition to_ufo_time :: "pvalue \<Rightarrow> error + string" where
  "to_ufo_time datetime_obj =
     (case datetime_obj of TimeV s \<Rightarrow> Inr s | _ \<Rightarrow> Inl AttributeError)"

text \<open>
  \<^verbatim>\<open>
  def draw_components(pen, components):
      for component in components:
          pen.addComponent(component.pop('name'),
                           component.pop('transform', (1, 0, 0, 1, 0, 0)))

  def add_anchors_to_glyph(glyph, anchors):
      for anchor in anchors:
          x, y = anchor.pop('position')
          anchor_dict = {'name': anchor.pop('name'), 'x': x, 'y': y}
          glyph.appendAnchor(glyph.anchorClass(anchorDict=anchor_dict))
  \<close>\<close>

fun draw_components :: "pen \<Rightarrow> component list \<Rightarrow> error + pen" where
  "draw_components pen [] = Inr pen"
| "draw_components pen (c # cs) =
     (case component_name c of
        None \<Rightarrow> Inl KeyError
      | Some n \<Rightarrow>
          draw_components
            (pen @ [AddComponent n
                      (dict_get component_transform c
                         (ListV [IntV 1, IntV 0, IntV 0, IntV 1, IntV 0, IntV 0]))])
            cs)"

fun add_anchors_to_glyph :: "glyph \<Rightarrow> anchor list \<Rightarrow> error + glyph" where
  "add_anchors_to_glyph g [] = Inr g"
| "add_anchors_to_glyph g (a # as) =
     (case anchor_position a of
        None \<Rightarrow> Inl KeyError
      | Some (x, y) \<Rightarrow>
     (case anchor_name a of
        None \<Rightarrow> Inl KeyError
      | Some n \<Rightarrow>
          add_anchors_to_glyph (g\<lparr>glyph_anchors := glyph_anchors g @ [(n, x, y)]\<rparr>) as))"

text \<open>
  \<^verbatim>\<open>
  def set_guidelines(ufo_obj, glyphs_data, is_global=False):
      guidelines = glyphs_data.get('guideLines')
      if not guidelines:
          return
      new_guidelines = []
      for guideline in guidelines:
          x, y = guideline.pop('position')
          angle = guideline.pop('angle', 0)
          new_guideline = {'x': x, 'y': y, 'angle': (360 - angle) % 360}
          new_guidelines.append(new_guideline)
      if is_global:
          ufo_obj.info.guidelines = new_guidelines
      else:
          ufo_obj.guidelines = new_guidelines
  \<close>
  Here for a glyph and the dictionary of a layer, that is with \<^verbatim>\<open>is_global\<close> false, as
  the glyph loader calls it.
\<close>

fun new_guidelines :: "guideline list \<Rightarrow> error + (int \<times> int \<times> int) list" where
  "new_guidelines [] = Inr []"
| "new_guidelines (gl # gls) =
     (case guideline_position gl of
        None \<Rightarrow> Inl KeyError
      | Some (x, y) \<Rightarrow>
          (let angle = dict_get guideline_angle gl 0 in
           case new_guidelines gls of
             Inl e \<Rightarrow> Inl e
           | Inr rest \<Rightarrow> Inr ((x, y, (360 - angle) mod 360) # rest)))"

definition set_guidelines :: "glyph \<Rightarrow> ('bg, 'm) layer_scheme \<Rightarrow> error + glyph" where
  "set_guidelines ufo_obj glyphs_data =
     (case guideLines glyphs_data of
        None \<Rightarrow> Inr ufo_obj
      | Some guidelines \<Rightarrow>
          if guidelines = [] then Inr ufo_obj
          else bind (new_guidelines guidelines)
                 (\<lambda>gs. Inr (ufo_obj\<lparr>glyph_guidelines := gs\<rparr>)))"

text \<open>
  \<^verbatim>\<open>
  def set_components_attributes(glyph, layer):
      # data related to components stored in lists of booleans
      # each list's elements correspond to the components in order
      for key in ['disableAlignment', 'locked']:
          values = [c.pop(key, False) for c in layer.get('components', [])]
          if any(values):
              key = key[0].upper() + key[1:]
              glyph.lib['%scomponents%s' % (GLYPHS_PREFIX, key)] = values
  \<close>
  \<open>set_components_attribute\<close> is the body of the loop for one key, given with the field
  of a component that the key names.
\<close>

definition set_components_attribute ::
  "string \<times> (component \<Rightarrow> pvalue option) \<Rightarrow> ('bg, 'm) layer_scheme \<Rightarrow> glyph \<Rightarrow> glyph" where
  "set_components_attribute kf l g =
     (case kf of (key, field) \<Rightarrow>
        (let vals = map (\<lambda>c. dict_get field c (BoolV False)) (dict_get components l [])
         in if list_ex truthy vals
            then set_glyph_lib
                   (GLYPHS_PREFIX @ ''components'' @ str_upper (take 1 key) @ drop 1 key)
                   (ListV vals) g
            else g))"

definition set_components_attributes :: "glyph \<Rightarrow> ('bg, 'm) layer_scheme \<Rightarrow> glyph" where
  "set_components_attributes g l =
     foldl (\<lambda>g kf. set_components_attribute kf l g) g
       [(''disableAlignment'', component_disableAlignment), (''locked'', component_locked)]"

text \<open>
  \<^verbatim>\<open>
  def set_glyph_background(glyph, key, background):
      if not background:
          return

      if glyph.layer.name != 'public.default':
          layer_name = glyph.layer.name + '.background'
      else:
          layer_name = 'public.background'

      font = glyph.font
      if layer_name not in font.layers:
          layer = font.newLayer(layer_name)
      else:
          layer = font.layers[layer_name]
      new_glyph = layer.newGlyph(glyph.name)

      new_glyph.width = background.pop('width', glyph.width)
      pen = new_glyph.getPointPen()
      draw_paths(pen, background.get('paths', []))
      draw_components(pen, background.get('components', []))
      add_anchors_to_glyph(new_glyph, background.get('anchors', []))
      set_guidelines(new_glyph, background)
      set_components_attributes(new_glyph, background)
  \<close>
  The function changes the layers of the font, not the glyph. A background is empty
  when it is absent or has no key. The background is the one of a layer, or a layer
  with an associated master that \<^verbatim>\<open>to_ufos\<close> hands over as a background.
\<close>

definition no_key :: "'bg layer \<Rightarrow> bool" where
  "no_key b =
     (leftMetricsKey b = None \<and> rightMetricsKey b = None \<and> widthMetricsKey b = None
      \<and> width b = None \<and> guideLines b = None \<and> background b = None \<and> annotations b = None
      \<and> hints b = None \<and> components b = None \<and> paths b = None \<and> anchors b = None)"

definition set_glyph_background ::
  "font_layers \<Rightarrow> glyph \<Rightarrow> string \<Rightarrow> 'bg layer option \<Rightarrow> error + font_layers" where
  "set_glyph_background font_layers g key bg =
     (case bg of
        None \<Rightarrow> Inr font_layers
      | Some b \<Rightarrow>
          if no_key b then Inr font_layers
          else
            (let layer_name = (if glyph_layer g \<noteq> ''public.default''
                               then glyph_layer g @ ''.background''
                               else ''public.background'');
                 layer = dict_get font_layers layer_name Map.empty;
                 new_glyph = (newGlyph layer_name (glyph_name g))
                               \<lparr>glyph_width := dict_get width b (glyph_width g)\<rparr>
             in bind (draw_paths (glyph_pen new_glyph) (dict_get paths b [])) (\<lambda>pen1.
                bind (draw_components pen1 (dict_get components b [])) (\<lambda>pen2.
                bind (add_anchors_to_glyph (new_glyph\<lparr>glyph_pen := pen2\<rparr>)
                        (dict_get anchors b [])) (\<lambda>g1.
                bind (set_guidelines g1 b) (\<lambda>g2.
                  Inr (font_layers(layer_name \<mapsto>
                         layer(glyph_name g \<mapsto> set_components_attributes g2 b)))))))))"

text \<open>
  \<^verbatim>\<open>
  def load_glyph_libdata(glyph, layer):
      set_guidelines(glyph, layer)
      set_glyph_background(glyph, 'background', layer.get('background'))
      for key in ['annotations', 'hints']:
          try:
              value = layer.pop(key)
          except KeyError:
              continue
          glyph.lib[GLYPHS_PREFIX + key] = value
      set_components_attributes(glyph, layer)
  \<close>\<close>

definition set_layer_blob :: "string \<times> pvalue option \<Rightarrow> glyph \<Rightarrow> glyph" where
  "set_layer_blob kv g =
     (case snd kv of None \<Rightarrow> g | Some v \<Rightarrow> set_glyph_lib (GLYPHS_PREFIX @ fst kv) v g)"

definition load_glyph_libdata ::
  "font_layers \<Rightarrow> glyph \<Rightarrow> master_layer \<Rightarrow> error + glyph \<times> font_layers" where
  "load_glyph_libdata font_layers g l =
     bind (set_guidelines g l) (\<lambda>g1.
     bind (set_glyph_background font_layers g1 ''background'' (background l)) (\<lambda>font_layers'.
       Inr (set_components_attributes
              (foldl (\<lambda>g kv. set_layer_blob kv g) g1
                 [(''annotations'', annotations l), (''hints'', hints l)]) l,
            font_layers')))"

text \<open>
  \<^verbatim>\<open>
  def load_glyph(glyph, layer, glyph_data):
      glyphlib_prefix = GLYPHS_PREFIX + 'Glyphs.'

      uval = glyph_data.get('unicode')
      if uval is not None:
          glyph.unicode = uval
      note = glyph_data.get('note')
      if note is not None:
          glyph.note = note
      last_change = glyph_data.get('lastChange')
      if last_change is not None:
          glyph.lib[glyphlib_prefix + 'lastChange'] = to_ufo_time(last_change)
      color_index = glyph_data.get('color')
      if color_index is not None and color_index >= 0:
          glyph.lib[glyphlib_prefix + 'ColorIndex'] = color_index
          glyph.lib[PUBLIC_PREFIX + 'markColor'] = GLYPHS_COLORS[color_index]
      export = glyph_data.get('export')
      if export is not None:
          glyph.lib[glyphlib_prefix + 'Export'] = export
      production_name = glyph_data.get('production')
      if production_name is not None:
          glyph.lib[PUBLIC_PREFIX + 'postscriptName'] = production_name

      for key in ['leftMetricsKey', 'rightMetricsKey', 'widthMetricsKey']:
          glyph_metrics_key = None
          try:
              glyph_metrics_key = layer.pop(key)
          except KeyError:
              glyph_metrics_key = glyph_data.get(key)
          if glyph_metrics_key:
              glyph.lib[glyphlib_prefix + key] = glyph_metrics_key

      # load width before background, which is loaded with lib data
      glyph.width = layer.pop('width')
      load_glyph_libdata(glyph, layer)

      pen = glyph.getPointPen()
      draw_paths(pen, layer.get('paths', []))
      draw_components(pen, layer.get('components', []))
      add_anchors_to_glyph(glyph, layer.get('anchors', []))
  \<close>
  The dictionary \<^verbatim>\<open>glyph_data\<close> is a map from keys to values, and
  \<^verbatim>\<open>glyph_data.get(key)\<close> is \<open>NoneV\<close> for a key that is absent. The colour index is a
  number; a truth value counts as 0 or 1, and any other value cannot be compared with 0.
  The steps are named after what they set; \<open>load_glyph\<close> runs them in the order of the
  source and returns the glyph and the layers of the font.
\<close>

definition glyphlib_prefix :: string where
  "glyphlib_prefix = GLYPHS_PREFIX @ ''Glyphs.''"

definition set_unicode_and_note :: "(string \<rightharpoonup> pvalue) \<Rightarrow> glyph \<Rightarrow> glyph" where
  "set_unicode_and_note glyph_data g =
     (let uval = dict_get glyph_data ''unicode'' NoneV;
          g1 = (if uval \<noteq> NoneV then g\<lparr>glyph_unicode := uval\<rparr> else g);
          note = dict_get glyph_data ''note'' NoneV
      in if note \<noteq> NoneV then g1\<lparr>glyph_note := note\<rparr> else g1)"

definition set_last_change :: "(string \<rightharpoonup> pvalue) \<Rightarrow> glyph \<Rightarrow> error + glyph" where
  "set_last_change glyph_data g =
     (let last_change = dict_get glyph_data ''lastChange'' NoneV
      in if last_change \<noteq> NoneV
         then bind (to_ufo_time last_change)
                (\<lambda>s. Inr (set_glyph_lib (glyphlib_prefix @ ''lastChange'') (StrV s) g))
         else Inr g)"

definition mark_color :: "pvalue \<Rightarrow> int \<Rightarrow> glyph \<Rightarrow> error + glyph" where
  "mark_color color_index i g =
     (let g1 = set_glyph_lib (glyphlib_prefix @ ''ColorIndex'') color_index g
      in if i < int (length GLYPHS_COLORS)
         then Inr (set_glyph_lib (PUBLIC_PREFIX @ ''markColor'') (StrV (GLYPHS_COLORS ! nat i)) g1)
         else Inl IndexError)"

definition set_color :: "(string \<rightharpoonup> pvalue) \<Rightarrow> glyph \<Rightarrow> error + glyph" where
  "set_color glyph_data g =
     (case dict_get glyph_data ''color'' NoneV of
        NoneV \<Rightarrow> Inr g
      | IntV i \<Rightarrow> if i \<ge> 0 then mark_color (IntV i) i g else Inr g
      | BoolV b \<Rightarrow> mark_color (BoolV b) (if b then 1 else 0) g
      | _ \<Rightarrow> Inl TypeError)"

definition set_export_and_production :: "(string \<rightharpoonup> pvalue) \<Rightarrow> glyph \<Rightarrow> glyph" where
  "set_export_and_production glyph_data g =
     (let export = dict_get glyph_data ''export'' NoneV;
          g1 = (if export \<noteq> NoneV then set_glyph_lib (glyphlib_prefix @ ''Export'') export g
                else g);
          production_name = dict_get glyph_data ''production'' NoneV
      in if production_name \<noteq> NoneV
         then set_glyph_lib (PUBLIC_PREFIX @ ''postscriptName'') production_name g1
         else g1)"

definition set_metrics_key ::
  "(string \<rightharpoonup> pvalue) \<Rightarrow> string \<times> pvalue option \<Rightarrow> glyph \<Rightarrow> glyph" where
  "set_metrics_key glyph_data kv g =
     (let glyph_metrics_key =
            (case snd kv of Some v \<Rightarrow> v | None \<Rightarrow> dict_get glyph_data (fst kv) NoneV)
      in if truthy glyph_metrics_key
         then set_glyph_lib (glyphlib_prefix @ fst kv) glyph_metrics_key g
         else g)"

definition set_metrics_keys :: "(string \<rightharpoonup> pvalue) \<Rightarrow> master_layer \<Rightarrow> glyph \<Rightarrow> glyph" where
  "set_metrics_keys glyph_data l g =
     foldl (\<lambda>g kv. set_metrics_key glyph_data kv g) g
       [(''leftMetricsKey'', leftMetricsKey l), (''rightMetricsKey'', rightMetricsKey l),
        (''widthMetricsKey'', widthMetricsKey l)]"

definition draw_layer :: "glyph \<Rightarrow> master_layer \<Rightarrow> error + glyph" where
  "draw_layer g l =
     bind (draw_paths (glyph_pen g) (dict_get paths l [])) (\<lambda>pen1.
     bind (draw_components pen1 (dict_get components l [])) (\<lambda>pen2.
       add_anchors_to_glyph (g\<lparr>glyph_pen := pen2\<rparr>) (dict_get anchors l [])))"

definition load_glyph ::
  "font_layers \<Rightarrow> glyph \<Rightarrow> master_layer \<Rightarrow> (string \<rightharpoonup> pvalue)
     \<Rightarrow> error + glyph \<times> font_layers" where
  "load_glyph font_layers g l glyph_data =
     bind (set_last_change glyph_data (set_unicode_and_note glyph_data g)) (\<lambda>g1.
     bind (set_color glyph_data g1) (\<lambda>g2.
       (let g3 = set_metrics_keys glyph_data l (set_export_and_production glyph_data g2) in
        case width l of
          None \<Rightarrow> Inl KeyError
        | Some w \<Rightarrow>
            bind (load_glyph_libdata font_layers (g3\<lparr>glyph_width := w\<rparr>) l) (\<lambda>(g4, font_layers').
            bind (draw_layer g4 l) (\<lambda>g5. Inr (g5, font_layers'))))))"

text \<open>The colour data of a glyph: the two entries of its lib that \<^verbatim>\<open>load_glyph\<close> writes for
  a colour index.\<close>

definition color_entries :: "glyph \<Rightarrow> pvalue option \<times> pvalue option" where
  "color_entries g =
     (glyph_lib g (glyphlib_prefix @ ''ColorIndex''), glyph_lib g (PUBLIC_PREFIX @ ''markColor''))"

text \<open>The dictionary of a layer that has the key \<^verbatim>\<open>width\<close> and no other.\<close>

definition width_only_layer :: "int \<Rightarrow> master_layer" where
  "width_only_layer w =
     \<lparr>leftMetricsKey = None, rightMetricsKey = None, widthMetricsKey = None, width = Some w,
      guideLines = None, background = None, annotations = None, hints = None,
      components = None, paths = None, anchors = None\<rparr>"

section \<open>The source document\<close>



record source_layer =
  layer_layerId :: "string option"
  layer_name :: "string option"
  layer_associatedMasterId :: "string option"
  layer_rest :: master_layer






text \<open>\<^verbatim>\<open>d.pop(key)\<close> and \<^verbatim>\<open>d[key]\<close>, which raise for a key that is absent.\<close>

definition required :: "'a option \<Rightarrow> error + 'a" where
  "required v = (case v of None \<Rightarrow> Inl KeyError | Some x \<Rightarrow> Inr x)"


subsection \<open>Base fonts\<close>




text \<open>
  \<^verbatim>\<open>
  def generate_base_fonts(data, family_name):
      from defcon import Font

      date_created = to_ufo_time(data.pop('date'))
      units_per_em = data.pop('unitsPerEm')
      version_major = data.pop('versionMajor')
      version_minor = data.pop('versionMinor')
      user_data = data.pop('userData', {})
      copyright = data.pop('copyright', None)
      designer = data.pop('designer', None)
      designer_url = data.pop('designerURL', None)
      manufacturer = data.pop('manufacturer', None)
      manufacturer_url = data.pop('manufacturerURL', None)

      misc = ['DisplayStrings', 'disablesAutomaticAlignment', 'disablesNiceNames']
      custom_params = parse_custom_params(data, misc)

      ufos = {}
      master_id_order = []
      for master in data['fontMaster']:
          ufo = Font()

          ufo.info.openTypeHeadCreated = date_created
          ufo.info.unitsPerEm = units_per_em
          ufo.info.versionMajor = version_major
          ufo.info.versionMinor = version_minor

          if copyright:
              ufo.info.copyright = copyright
          if designer:
              ufo.info.openTypeNameDesigner = designer
          if designer_url:
              ufo.info.openTypeNameDesignerURL = designer_url
          if manufacturer:
              ufo.info.openTypeNameManufacturer = manufacturer
          if manufacturer_url:
              ufo.info.openTypeNameManufacturerURL = manufacturer_url

          ufo.info.ascender = master.pop('ascender')
          ufo.info.capHeight = master.pop('capHeight')
          ufo.info.descender = master.pop('descender')
          ufo.info.xHeight = master.pop('xHeight')

          horizontal_stems = master.pop('horizontalStems', None)
          vertical_stems = master.pop('verticalStems', None)
          italic_angle = -master.pop('italicAngle', 0)
          if horizontal_stems:
              ufo.info.postscriptStemSnapH = horizontal_stems
          if vertical_stems:
              ufo.info.postscriptStemSnapV = vertical_stems
          if italic_angle:
              ufo.info.italicAngle = italic_angle

          ufo.info.familyName = family_name
          ufo.info.styleName = build_style_name(
              master, 'width', 'weight', 'custom', italic_angle != 0)

          set_redundant_data(ufo)
          set_blue_values(ufo, master.pop('alignmentZones', []))
          set_family_user_data(ufo, user_data)
          set_master_user_data(ufo, master.pop('userData', {}))
          set_guidelines(ufo, master, is_global=True)

          set_custom_params(ufo, parsed=custom_params)
          # the misc attributes double as deprecated info attributes!
          # they are Glyphs-related, not OpenType-related, and don't go in info
          misc = ('customValue', 'weightValue', 'widthValue')
          set_custom_params(ufo, data=master, misc_keys=misc, non_info=misc)

          master_id = master.pop('id')
          ufo.lib[GLYPHS_PREFIX + 'fontMasterID'] = master_id
          master_id_order.append(master_id)
          ufos[master_id] = ufo

      return ufos, master_id_order
  \<close>
  \<open>base_values\<close> holds what is read from the document before the loop, \<open>base_font\<close> is
  the body of the loop, and \<open>base_fonts\<close> the loop, which carries \<^verbatim>\<open>ufos\<close> (a
  dictionary of ordered keys) and \<^verbatim>\<open>master_id_order\<close>. The negation of the italic angle
  is of a number (a truth value counts as 0 or 1).
\<close>

record base_values =
  date_created :: string
  units_per_em :: pvalue
  version_major :: pvalue
  version_minor :: pvalue
  user_data :: pvalue
  copyright :: pvalue
  designer :: pvalue
  designer_url :: pvalue
  manufacturer :: pvalue
  manufacturer_url :: pvalue
  custom_params :: "(pvalue \<times> pvalue) list"
  family_name :: pvalue






subsection \<open>Features\<close>










subsection \<open>The translation\<close>


































section \<open>Properties of the blue values\<close>

lemma sort_cong_mset:
  fixes xs ys :: "'a::linorder list"
  assumes "mset xs = mset ys"
  shows "sort xs = sort ys"
proof -
  have "mset (sort ys) = mset xs" using assms by simp
  then show ?thesis by (rule properties_for_sort) simp
qed

lemma lex_le_fst:
  fixes x y :: "int \<times> int"
  shows "x \<le> y \<Longrightarrow> fst x \<le> fst y"
  by (auto simp: less_eq_prod_def)

lemma sorted_lex_fst:
  fixes zs :: "(int \<times> int) list"
  shows "sorted zs \<Longrightarrow> sorted (map fst zs)"
  by (induction zs) (auto dest: lex_le_fst)

lemma sort_two: "sort [a, b :: int] = [min a b, max a b]"
  by (simp add: min_def max_def)

lemma blue_loop_classifies:
  "blue_loop zs (bv, ob) =
     (bv @ concat (map spec_zone_interval (filter spec_zone_primary zs)),
      ob @ concat (map spec_zone_interval (filter (\<lambda>z. \<not> spec_zone_primary z) zs)))"
proof (induction zs arbitrary: bv ob)
  case Nil
  show ?case by simp
next
  case (Cons z zs)
  obtain pos sz where z: "z = (pos, sz)" by (cases z)
  show ?case
    unfolding z by (simp add: Cons.IH min_def max_def)
qed

lemma length_spec_intervals:
  "length (concat (map spec_zone_interval zs)) = 2 * length zs"
  by (induction zs) auto

lemma set_blue_values_result:
  "set_blue_values u zones =
     (if length (concat (map spec_zone_interval (filter spec_zone_primary (sort zones)))) \<le> 14
         \<and> length (concat (map spec_zone_interval
                (filter (\<lambda>z. \<not> spec_zone_primary z) (sort zones)))) \<le> 10
      then Inr (u\<lparr>info := (info u)
             (''postscriptBlueValues'' \<mapsto> ListV (map IntV (concat (map spec_zone_interval
                  (filter spec_zone_primary (sort zones))))),
              ''postscriptOtherBlues'' \<mapsto> ListV (map IntV (concat (map spec_zone_interval
                  (filter (\<lambda>z. \<not> spec_zone_primary z) (sort zones))))))\<rparr>)
      else Inl ValueError)"
  by (simp add: set_blue_values_def blue_loop_classifies blues_accepted_def
        length_spec_intervals)

text \<open>
  Claim C3, as the code has it. The zones are visited in ascending order of position
  (the list visited is a sorted rearrangement of the input); each zone whose position is
  0 or whose size is not negative contributes its end points \<open>pos\<close>, \<open>pos + size\<close>,
  smaller first, to the primary sequence, every other zone to the secondary one. When
  the primary sequence has at most 14 values and the secondary one at most 10, they
  are stored as \<^verbatim>\<open>postscriptBlueValues\<close> and \<^verbatim>\<open>postscriptOtherBlues\<close>; otherwise the info
  object refuses them and \<^verbatim>\<open>set_blue_values\<close> raises a \<^verbatim>\<open>ValueError\<close>. In both cases a
  rearrangement \<open>zones'\<close> of the input list has the same outcome.
\<close>

theorem set_blue_values_classification_within_limits:
  assumes "mset zones' = mset zones"
  shows "sorted (map fst (sort zones)) \<and> mset (sort zones) = mset zones
    \<and> set_blue_values u zones' = set_blue_values u zones
    \<and> (length (concat (map spec_zone_interval (filter spec_zone_primary (sort zones)))) \<le> 14
         \<and> length (concat (map spec_zone_interval
                (filter (\<lambda>z. \<not> spec_zone_primary z) (sort zones)))) \<le> 10
       \<longrightarrow> set_blue_values u zones =
           Inr (u\<lparr>info := (info u)
             (''postscriptBlueValues'' \<mapsto> ListV (map IntV (concat (map spec_zone_interval
                  (filter spec_zone_primary (sort zones))))),
              ''postscriptOtherBlues'' \<mapsto> ListV (map IntV (concat (map spec_zone_interval
                  (filter (\<lambda>z. \<not> spec_zone_primary z) (sort zones))))))\<rparr>))
    \<and> (\<not> (length (concat (map spec_zone_interval (filter spec_zone_primary (sort zones)))) \<le> 14
            \<and> length (concat (map spec_zone_interval
                (filter (\<lambda>z. \<not> spec_zone_primary z) (sort zones)))) \<le> 10)
       \<longrightarrow> set_blue_values u zones = Inl ValueError)"
proof -
  have "sort zones' = sort zones"
    using assms by (rule sort_cong_mset)
  then have "set_blue_values u zones' = set_blue_values u zones"
    by (simp add: set_blue_values_def)
  moreover have "sorted (map fst (sort zones))"
    by (rule sorted_lex_fst) simp
  ultimately show ?thesis
    using set_blue_values_result [of u zones] by simp
qed

theorem set_blue_values_classification_within_limits_witness:
  "mset [(500, 12), (0, -15), (-120, -10)] = mset [(-120 :: int, -10 :: int), (500, 12), (0, -15)]
   \<and> set_blue_values Font [(-120, -10), (500, 12), (0, -15)] =
       Inr (Font\<lparr>info := (info Font)
              (''postscriptBlueValues'' \<mapsto> ListV (map IntV [-15, 0, 500, 512]),
               ''postscriptOtherBlues'' \<mapsto> ListV (map IntV [-130, -120]))\<rparr>)
   \<and> set_blue_values Font [(500, 12), (0, -15), (-120, -10)] =
       set_blue_values Font [(-120, -10), (500, 12), (0, -15)]"
proof -
  have m: "mset [(500, 12), (0, -15), (-120, -10)] =
           mset [(-120 :: int, -10 :: int), (500, 12), (0, -15)]" by simp
  have s: "sort [(-120, -10), (500, 12), (0, -15)] = [(-120 :: int, -10 :: int), (0, -15), (500, 12)]"
    by (simp add: less_eq_prod_def)
  show ?thesis
    using set_blue_values_classification_within_limits [OF m, of Font] by (simp add: s)
qed

text \<open>Claim C3 as stated fails for eight zones of a size that is not negative: the
  primary sequence has 16 values, the info object refuses it, and no sequence is
  stored.\<close>

theorem set_blue_values_classification_counterexample:
  "set_blue_values Font
     [(0, 10), (100, 10), (200, 10), (300, 10), (400, 10), (500, 10), (600, 10), (700, 10)] =
   Inl ValueError"
proof -
  have "sort [(0, 10), (100, 10), (200, 10), (300, 10), (400, 10), (500, 10), (600, 10),
              (700 :: int, 10 :: int)] =
        [(0, 10), (100, 10), (200, 10), (300, 10), (400, 10), (500, 10), (600, 10), (700, 10)]"
    by (simp add: less_eq_prod_def)
  then show ?thesis
    by (simp add: set_blue_values_result)
qed

section \<open>Properties of the outline transcriber\<close>

lemma draw_nodes_append: "draw_nodes pen ns = pen @ map add_node ns"
  by (induction ns arbitrary: pen) auto

lemma add_node_point: "is_point (add_node n) \<and> \<not> is_move (add_node n)"
  by (cases n) auto

lemma draw_path_closed:
  assumes "marked_closed p" and "nodes p = Some ns"
  shows "draw_path pen p = Inr (pen @ [BeginPath] @ map add_node ns @ [EndPath])"
  using assms by (simp add: draw_path_def marked_closed_def draw_nodes_append)

lemma draw_path_open:
  assumes "\<not> marked_closed p" and "nodes p = Some ((x, y, ''line'', sm) # rest)"
  shows "draw_path pen p =
     Inr (pen @ [BeginPath, AddPoint (x, y) (Some ''move'') None] @ map add_node rest @ [EndPath])"
proof (cases "closed p")
  case None
  with assms show ?thesis by (simp add: draw_path_def draw_nodes_append)
next
  case (Some b)
  with assms have "b = False" by (simp add: marked_closed_def)
  with Some assms show ?thesis by (simp add: draw_path_def draw_nodes_append)
qed



text \<open>
  Claim C4. Let the path \<open>p\<close> have the \<open>N\<close> nodes \<open>ns\<close>. If it is marked closed, the
  calls made for it are \<^verbatim>\<open>beginPath\<close>, one \<^verbatim>\<open>addPoint\<close> for each node (\<open>N\<close> points, none
  of kind \<^verbatim>\<open>move\<close>) and \<^verbatim>\<open>endPath\<close>. If it is not marked closed and its first node has
  type \<^verbatim>\<open>line\<close>, the calls are \<^verbatim>\<open>beginPath\<close>, the first node as a \<^verbatim>\<open>move\<close> point, one
  \<^verbatim>\<open>addPoint\<close> for each of the other \<open>N - 1\<close> nodes, and \<^verbatim>\<open>endPath\<close>. The drawing then
  goes on with the paths \<open>ps\<close> that follow.
\<close>

theorem draw_paths_points_per_path:
  assumes "nodes p = Some ns"
  shows "(marked_closed p \<longrightarrow>
            draw_paths pen (p # ps) =
              draw_paths (pen @ [BeginPath] @ map add_node ns @ [EndPath]) ps
          \<and> length (map add_node ns) = length ns
          \<and> (\<forall>c \<in> set (map add_node ns). is_point c \<and> \<not> is_move c))
       \<and> (\<not> marked_closed p \<and> first_node_type p = Some ''line'' \<longrightarrow>
            (\<exists>x y sm. ns = (x, y, ''line'', sm) # tl ns
              \<and> draw_paths pen (p # ps) =
                  draw_paths (pen @ [BeginPath, AddPoint (x, y) (Some ''move'') None]
                                @ map add_node (tl ns) @ [EndPath]) ps)
          \<and> length (map add_node (tl ns)) = length ns - 1
          \<and> (\<forall>c \<in> set (map add_node (tl ns)). is_point c))"
proof (intro conjI impI)
  assume "marked_closed p"
  then show "draw_paths pen (p # ps) =
      draw_paths (pen @ [BeginPath] @ map add_node ns @ [EndPath]) ps"
    using assms by (simp add: draw_path_closed)
next
  show "\<forall>c \<in> set (map add_node ns). is_point c \<and> \<not> is_move c"
    using add_node_point by auto
next
  assume open_line: "\<not> marked_closed p \<and> first_node_type p = Some ''line''"
  then obtain x y sm rest where ns: "ns = (x, y, ''line'', sm) # rest"
    using assms by (auto simp: first_node_type_def split: list.splits)
  have "draw_path pen p =
      Inr (pen @ [BeginPath, AddPoint (x, y) (Some ''move'') None] @ map add_node rest @ [EndPath])"
    using open_line assms ns by (intro draw_path_open) simp_all
  then show "\<exists>x y sm. ns = (x, y, ''line'', sm) # tl ns
      \<and> draw_paths pen (p # ps) =
          draw_paths (pen @ [BeginPath, AddPoint (x, y) (Some ''move'') None]
                        @ map add_node (tl ns) @ [EndPath]) ps"
    using ns by auto
next
  show "\<forall>c \<in> set (map add_node (tl ns)). is_point c"
    using add_node_point by auto
qed simp_all

theorem draw_paths_points_per_path_witness:
  "draw_paths []
      [\<lparr>closed = Some True, nodes = Some [(0, 0, ''line'', False), (5, 9, ''offcurve'', False),
                                            (7, 2, ''curve'', True)]\<rparr>] =
     Inr [BeginPath, AddPoint (0, 0) (Some ''line'') (Some False), AddPoint (5, 9) None (Some False),
          AddPoint (7, 2) (Some ''curve'') (Some True), EndPath]
   \<and> draw_paths []
      [\<lparr>closed = None, nodes = Some [(0, 0, ''line'', False), (5, 9, ''line'', True)]\<rparr>] =
     Inr [BeginPath, AddPoint (0, 0) (Some ''move'') None, AddPoint (5, 9) (Some ''line'') (Some True),
          EndPath]"
proof -
  let ?c = "\<lparr>closed = Some True, nodes = Some [(0, 0, ''line'', False), (5, 9, ''offcurve'', False),
                                            (7, 2, ''curve'', True)]\<rparr>"
  let ?o = "\<lparr>closed = None, nodes = Some [(0, 0, ''line'', False), (5, 9, ''line'', True)]\<rparr>"
  have c: "nodes ?c = Some [(0, 0, ''line'', False), (5, 9, ''offcurve'', False), (7, 2, ''curve'', True)]"
    by simp
  have o: "nodes ?o = Some [(0, 0, ''line'', False), (5, 9, ''line'', True)]"
    by simp
  show ?thesis
    using draw_paths_points_per_path [OF c, of "[]" "[]"]
          draw_paths_points_per_path [OF o, of "[]" "[]"]
    by (simp add: marked_closed_def first_node_type_def)
qed






section \<open>Properties of the kerning groups\<close>

lemma add_glyph_to_groups_case:
  assumes "g ''glyphname'' = Some n"
  shows "case add_glyph_to_groups kg g of
     Inl e \<Rightarrow> False
   | Inr (kg', g') \<Rightarrow>
      (\<forall>v. dict_get kg' (''public.kern1.'' @ v) [] =
            dict_get kg (''public.kern1.'' @ v) [] @ (if g ''rightKerningGroup'' = Some v then [n] else []))
     \<and> (\<forall>v. dict_get kg' (''public.kern2.'' @ v) [] =
            dict_get kg (''public.kern2.'' @ v) [] @ (if g ''leftKerningGroup'' = Some v then [n] else []))"
  using assms
  by (cases "g ''rightKerningGroup''"; cases "g ''leftKerningGroup''")
     (simp_all add: add_glyph_to_groups_def group_keys_def add_glyph_to_side_def dict_get_def Let_def)

lemma add_glyph_to_groups_appends:
  assumes "g ''glyphname'' = Some n"
  shows "\<exists>kg' g'. add_glyph_to_groups kg g = Inr (kg', g')
     \<and> (\<forall>v. dict_get kg' (''public.kern1.'' @ v) [] =
            dict_get kg (''public.kern1.'' @ v) [] @ (if g ''rightKerningGroup'' = Some v then [n] else []))
     \<and> (\<forall>v. dict_get kg' (''public.kern2.'' @ v) [] =
            dict_get kg (''public.kern2.'' @ v) [] @ (if g ''leftKerningGroup'' = Some v then [n] else []))"
  using add_glyph_to_groups_case [of g n kg] assms
  by (cases "add_glyph_to_groups kg g") auto

lemma declared_members_Cons:
  "declared_members key v (g # gs) =
     (if g key = Some v then (case g ''glyphname'' of None \<Rightarrow> [] | Some n \<Rightarrow> [n]) else [])
       @ declared_members key v gs"
  by (simp add: declared_members_def)

text \<open>
  Claim C7. When every glyph has a name, the glyph loop leaves in the group
  \<^verbatim>\<open>public.kern1.v\<close> what was there before, followed by the names of the glyphs that
  declare \<^verbatim>\<open>rightKerningGroup = v\<close>, in the order of the glyph list; and likewise in
  \<^verbatim>\<open>public.kern2.v\<close> for \<^verbatim>\<open>leftKerningGroup = v\<close>. (A group that is absent counts as
  empty, as in \<^verbatim>\<open>kerning_groups.get(group, [])\<close>.)
\<close>

theorem add_glyphs_to_groups_members:
  assumes "\<forall>g \<in> set glyphs. g ''glyphname'' \<noteq> None"
  shows "\<exists>kg. add_glyphs_to_groups kg0 glyphs = Inr kg
     \<and> (\<forall>v. dict_get kg (''public.kern1.'' @ v) [] =
            dict_get kg0 (''public.kern1.'' @ v) [] @ declared_members ''rightKerningGroup'' v glyphs)
     \<and> (\<forall>v. dict_get kg (''public.kern2.'' @ v) [] =
            dict_get kg0 (''public.kern2.'' @ v) [] @ declared_members ''leftKerningGroup'' v glyphs)"
  using assms
proof (induction glyphs arbitrary: kg0)
  case Nil
  then show ?case by (simp add: declared_members_def)
next
  case (Cons g gs)
  then obtain n where n: "g ''glyphname'' = Some n" by auto
  from add_glyph_to_groups_appends [of g n kg0] n
  obtain kg1 g' where step: "add_glyph_to_groups kg0 g = Inr (kg1, g')"
    and r: "\<And>v. dict_get kg1 (''public.kern1.'' @ v) [] =
            dict_get kg0 (''public.kern1.'' @ v) [] @ (if g ''rightKerningGroup'' = Some v then [n] else [])"
    and l: "\<And>v. dict_get kg1 (''public.kern2.'' @ v) [] =
            dict_get kg0 (''public.kern2.'' @ v) [] @ (if g ''leftKerningGroup'' = Some v then [n] else [])"
    by blast
  from Cons.IH [of kg1] Cons.prems
  obtain kg where rest: "add_glyphs_to_groups kg1 gs = Inr kg"
    and r': "\<And>v. dict_get kg (''public.kern1.'' @ v) [] =
            dict_get kg1 (''public.kern1.'' @ v) [] @ declared_members ''rightKerningGroup'' v gs"
    and l': "\<And>v. dict_get kg (''public.kern2.'' @ v) [] =
            dict_get kg1 (''public.kern2.'' @ v) [] @ declared_members ''leftKerningGroup'' v gs"
    by auto
  have "add_glyphs_to_groups kg0 (g # gs) = Inr kg"
    using step rest by simp
  then show ?case
    using r l r' l' n by (simp add: declared_members_Cons)
qed

theorem add_glyphs_to_groups_members_witness:
  "[''glyphname'' \<mapsto> ''A'', ''rightKerningGroup'' \<mapsto> ''A'', ''leftKerningGroup'' \<mapsto> ''A'']
      ''glyphname'' = Some ''A''
   \<and> [''glyphname'' \<mapsto> ''V'', ''leftKerningGroup'' \<mapsto> ''A''] ''glyphname'' = Some ''V''
   \<and> [''glyphname'' \<mapsto> ''Aacute'', ''rightKerningGroup'' \<mapsto> ''A''] ''glyphname'' = Some ''Aacute''
   \<and> (\<exists>kg. add_glyphs_to_groups Map.empty
          [[''glyphname'' \<mapsto> ''A'', ''rightKerningGroup'' \<mapsto> ''A'', ''leftKerningGroup'' \<mapsto> ''A''],
           [''glyphname'' \<mapsto> ''V'', ''leftKerningGroup'' \<mapsto> ''A''],
           [''glyphname'' \<mapsto> ''Aacute'', ''rightKerningGroup'' \<mapsto> ''A'']] = Inr kg
        \<and> dict_get kg ''public.kern1.A'' [] = [''A'', ''Aacute'']
        \<and> dict_get kg ''public.kern2.A'' [] = [''A'', ''V''])"
proof -
  let ?gs = "[[''glyphname'' \<mapsto> ''A'', ''rightKerningGroup'' \<mapsto> ''A'', ''leftKerningGroup'' \<mapsto> ''A''],
              [''glyphname'' \<mapsto> ''V'', ''leftKerningGroup'' \<mapsto> ''A''],
              [''glyphname'' \<mapsto> ''Aacute'', ''rightKerningGroup'' \<mapsto> ''A'']]"
  have names: "\<forall>g \<in> set ?gs. g ''glyphname'' \<noteq> None" by simp
  from add_glyphs_to_groups_members [OF names, of Map.empty]
  obtain kg where kg: "add_glyphs_to_groups Map.empty ?gs = Inr kg"
    and r: "\<And>v. dict_get kg (''public.kern1.'' @ v) [] =
              dict_get Map.empty (''public.kern1.'' @ v) [] @ declared_members ''rightKerningGroup'' v ?gs"
    and l: "\<And>v. dict_get kg (''public.kern2.'' @ v) [] =
              dict_get Map.empty (''public.kern2.'' @ v) [] @ declared_members ''leftKerningGroup'' v ?gs"
    by blast
  have "dict_get kg ''public.kern1.A'' [] = [''A'', ''Aacute'']"
    using r [of "''A''"] by (simp add: declared_members_def dict_get_def)
  moreover have "dict_get kg ''public.kern2.A'' [] = [''A'', ''V'']"
    using l [of "''A''"] by (simp add: declared_members_def dict_get_def)
  ultimately have "\<exists>kg. add_glyphs_to_groups Map.empty ?gs = Inr kg
        \<and> dict_get kg ''public.kern1.A'' [] = [''A'', ''Aacute'']
        \<and> dict_get kg ''public.kern2.A'' [] = [''A'', ''V'']"
    using kg by blast
  then show ?thesis by simp
qed

section \<open>Properties of the style names\<close>

lemma build_style_name_tokens:
  assumes "data ''width'' = Some (StrV w)" and "data ''weight'' = Some (StrV wt)"
    and "data ''custom'' \<in> {None, Some (StrV '''')}"
  shows "build_style_name data ''width'' ''weight'' ''custom'' False =
     Inr (style_of_tokens w wt, data(''width'' := None, ''weight'' := None, ''custom'' := None))"
  using assms
  by (auto simp: build_style_name_def dict_pop_def dict_get_def style_of_tokens_def)

lemma parse_style_attrs_table:
  "\<forall>w \<in> set (map fst WIDTH_CODES). \<forall>wt \<in> set (map fst WEIGHT_CODES).
     w \<noteq> ''Condensed'' \<longrightarrow>
     parse_style_attrs (style_of_tokens w wt) =
       (w, if wt = ''Regular'' \<and> w \<noteq> [] then [] else wt)"
  by code_simp

text \<open>The width \<^verbatim>\<open>Condensed\<close> is read back as \<^verbatim>\<open>Cond\<close>, which stands before it in
  the alternation.\<close>

lemma parse_style_attrs_Condensed:
  "parse_style_attrs (style_of_tokens ''Condensed'' ''Bold'') = (''Cond'', ''Bold'')"
  by code_simp

text \<open>
  Claim C2, as the code has it. Let \<open>w\<close> be a key of \<^verbatim>\<open>WIDTH_CODES\<close> other than
  \<^verbatim>\<open>Condensed\<close> and \<open>wt\<close> a key of \<^verbatim>\<open>WEIGHT_CODES\<close>, and let the master have them as
  its width and weight, no custom token (or an empty one) and no italic angle. Then
  the style name built from the master parses to the width \<open>w\<close>, and to the weight
  \<open>wt\<close>, except that the weight \<^verbatim>\<open>Regular\<close> next to a width that is not empty is
  read back as the empty token: \<^verbatim>\<open>build_style_name\<close> leaves it out of the name.
\<close>

theorem parse_style_attrs_build_style_name:
  assumes "w \<in> set (map fst WIDTH_CODES)" and "wt \<in> set (map fst WEIGHT_CODES)"
    and "w \<noteq> ''Condensed''"
    and "data ''width'' = Some (StrV w)" and "data ''weight'' = Some (StrV wt)"
    and "data ''custom'' \<in> {None, Some (StrV '''')}"
  shows "\<exists>name data'.
      build_style_name data ''width'' ''weight'' ''custom'' False = Inr (name, data')
      \<and> parse_style_attrs name = (w, if wt = ''Regular'' \<and> w \<noteq> [] then [] else wt)"
proof -
  have "parse_style_attrs (style_of_tokens w wt) =
      (w, if wt = ''Regular'' \<and> w \<noteq> [] then [] else wt)"
    using parse_style_attrs_table assms(1-3) by blast
  then show ?thesis
    using build_style_name_tokens [OF assms(4-6)] by simp
qed

theorem parse_style_attrs_build_style_name_witness:
  "''Extra Condensed'' \<in> set (map fst WIDTH_CODES) \<and> ''SemiBold'' \<in> set (map fst WEIGHT_CODES)
   \<and> (\<exists>name data'.
        build_style_name [''width'' \<mapsto> StrV ''Extra Condensed'', ''weight'' \<mapsto> StrV ''SemiBold'']
          ''width'' ''weight'' ''custom'' False = Inr (name, data')
        \<and> parse_style_attrs name = (''Extra Condensed'', ''SemiBold''))"
proof -
  have w: "''Extra Condensed'' \<in> set (map fst WIDTH_CODES)"
    by (simp add: WIDTH_CODES_def)
  have wt: "''SemiBold'' \<in> set (map fst WEIGHT_CODES)"
    by (simp add: WEIGHT_CODES_def)
  show ?thesis
    using parse_style_attrs_build_style_name [OF w wt,
        of "[''width'' \<mapsto> StrV ''Extra Condensed'', ''weight'' \<mapsto> StrV ''SemiBold'']"] w wt
    by simp
qed

text \<open>Claim C2 as stated fails for the width \<^verbatim>\<open>Cd\<close> and the weight \<^verbatim>\<open>Regular\<close>, both
  keys of the tables: the style name is \<^verbatim>\<open>Cd\<close>, and its weight parses to the empty
  token.\<close>

theorem parse_style_attrs_build_style_name_counterexample:
  "''Cd'' \<in> set (map fst WIDTH_CODES) \<and> ''Regular'' \<in> set (map fst WEIGHT_CODES)
   \<and> map_sum id fst
       (build_style_name [''width'' \<mapsto> StrV ''Cd'', ''weight'' \<mapsto> StrV ''Regular'']
          ''width'' ''weight'' ''custom'' False) = Inr ''Cd''
   \<and> parse_style_attrs ''Cd'' = (''Cd'', '''')
   \<and> parse_style_attrs ''Cd'' \<noteq> (''Cd'', ''Regular'')"
proof -
  have "build_style_name [''width'' \<mapsto> StrV ''Cd'', ''weight'' \<mapsto> StrV ''Regular'']
          ''width'' ''weight'' ''custom'' False =
        Inr (''Cd'', [''width'' \<mapsto> StrV ''Cd'', ''weight'' \<mapsto> StrV ''Regular'']
                       (''width'' := None, ''weight'' := None, ''custom'' := None))"
    by (simp add: build_style_name_def dict_pop_def dict_get_def)
  moreover have "parse_style_attrs ''Cd'' = (''Cd'', '''')"
    by code_simp
  ultimately show ?thesis
    by (simp add: WIDTH_CODES_def WEIGHT_CODES_def)
qed

subsection \<open>The style map\<close>

lemma re_search_alternatives_mem:
  "re_search_alternatives ks name = Some k \<Longrightarrow> k \<in> set ks"
  by (induction name) (auto simp: find_Some_iff split: option.splits)

lemma search_codes_key:
  assumes "[] \<in> fst ` set codes"
  shows "search_codes codes name \<in> fst ` set codes"
proof (cases "re_search_alternatives (filter (\<lambda>k. k \<noteq> []) (map fst codes)) name")
  case None
  then show ?thesis using assms by (simp add: search_codes_def)
next
  case (Some k)
  then have "k \<in> set (filter (\<lambda>k. k \<noteq> []) (map fst codes))"
    by (rule re_search_alternatives_mem)
  then show ?thesis using Some by (auto simp: search_codes_def)
qed

text \<open>The two look-ups in the code tables never raise.\<close>

lemma width_code_found: "\<exists>c. map_of WIDTH_CODES (search_codes WIDTH_CODES name) = Some c"
proof -
  have "[] \<in> fst ` set WIDTH_CODES" by (simp add: WIDTH_CODES_def)
  then have "search_codes WIDTH_CODES name \<in> fst ` set WIDTH_CODES"
    by (rule search_codes_key)
  then show ?thesis
    by (metis map_of_eq_None_iff not_Some_eq)
qed

lemma weight_code_found: "\<exists>c. map_of WEIGHT_CODES (search_codes WEIGHT_CODES name) = Some c"
proof -
  have "[] \<in> fst ` set WEIGHT_CODES" by (simp add: WEIGHT_CODES_def)
  then have "search_codes WEIGHT_CODES name \<in> fst ` set WEIGHT_CODES"
    by (rule search_codes_key)
  then show ?thesis
    by (metis map_of_eq_None_iff not_Some_eq)
qed

lemma style_map_style_name_cases:
  "style_map_style_name weight style_name \<in> {''regular'', ''bold'', ''italic'', ''bold italic''}"
  by (simp add: style_map_style_name_def)

lemma info_set_info: "info (set_info k v u) = (info u)(k \<mapsto> v)"
  by (simp add: set_info_def)

lemma info_set_lib: "info (set_lib k v u) = info u"
  by (simp add: set_lib_def)

lemma set_redundant_data_match:
  assumes "info_attr u ''styleName'' = StrV s"
    and "str_lower s \<in> set [''regular'', ''bold'', ''italic'', ''bold italic'']"
  shows "\<exists>u'. set_redundant_data u = Inr u'
      \<and> info u' ''styleMapStyleName'' = Some (StrV (str_lower s))
      \<and> info u' ''styleMapFamilyName'' = Some (info_attr u ''familyName'')"
proof -
  obtain wc where wc: "map_of WIDTH_CODES (search_codes WIDTH_CODES s) = Some wc"
    using width_code_found by blast
  obtain wtc where wtc: "map_of WEIGHT_CODES (search_codes WEIGHT_CODES s) = Some wtc"
    using weight_code_found by blast
  show ?thesis
    using assms wc wtc
    by (simp add: set_redundant_data_def parse_style_attrs_def Let_def info_set_info info_set_lib)
qed

lemma set_redundant_data_other:
  assumes "info_attr u ''styleName'' = StrV s"
    and "str_lower s \<notin> set [''regular'', ''bold'', ''italic'', ''bold italic'']"
  shows "(\<exists>u'. set_redundant_data u = Inr u'
      \<and> info u' ''styleMapStyleName'' =
          Some (StrV (style_map_style_name (search_codes WEIGHT_CODES s) s)))
    \<or> set_redundant_data u = Inl TypeError \<and> (\<forall>f. info_attr u ''familyName'' \<noteq> StrV f)"
proof -
  obtain wc where wc: "map_of WIDTH_CODES (search_codes WIDTH_CODES s) = Some wc"
    using width_code_found by blast
  obtain wtc where wtc: "map_of WEIGHT_CODES (search_codes WEIGHT_CODES s) = Some wtc"
    using weight_code_found by blast
  show ?thesis
    using assms wc wtc
    by (cases "info_attr u ''familyName''")
       (simp_all add: set_redundant_data_def parse_style_attrs_def Let_def info_set_info
          info_set_lib)
qed

lemma set_redundant_data_no_style:
  assumes "\<forall>s. info_attr u ''styleName'' \<noteq> StrV s"
  shows "set_redundant_data u = Inl TypeError"
  using assms
  by (cases "info_attr u ''styleName''") (simp_all add: set_redundant_data_def)

text \<open>
  Claim C6, as the code has it. When the style name of the font, put in lower case, is
  one of \<^verbatim>\<open>regular\<close>, \<^verbatim>\<open>bold\<close>, \<^verbatim>\<open>italic\<close> and \<^verbatim>\<open>bold italic\<close>, then
  \<^verbatim>\<open>styleMapStyleName\<close> is set to the style name in lower case, and
  \<^verbatim>\<open>styleMapFamilyName\<close> to the family name as it is.
\<close>

theorem style_map_of_plain_style:
  assumes "info_attr u ''styleName'' = StrV s"
    and "str_lower s \<in> set [''regular'', ''bold'', ''italic'', ''bold italic'']"
  shows "\<exists>u'. set_redundant_data u = Inr u'
      \<and> info u' ''styleMapStyleName'' = Some (StrV (str_lower s))
      \<and> info u' ''styleMapFamilyName'' = Some (info_attr u ''familyName'')"
  using assms by (rule set_redundant_data_match)

theorem style_map_of_plain_style_witness:
  "info_attr (set_info ''styleName'' (StrV ''Bold Italic'')
               (set_info ''familyName'' (StrV ''My Font'') Font)) ''styleName'' = StrV ''Bold Italic''
   \<and> str_lower ''Bold Italic'' \<in> set [''regular'', ''bold'', ''italic'', ''bold italic'']
   \<and> (\<exists>u'. set_redundant_data (set_info ''styleName'' (StrV ''Bold Italic'')
               (set_info ''familyName'' (StrV ''My Font'') Font)) = Inr u'
        \<and> info u' ''styleMapStyleName'' = Some (StrV ''bold italic'')
        \<and> info u' ''styleMapFamilyName'' = Some (StrV ''My Font''))"
proof -
  let ?u = "set_info ''styleName'' (StrV ''Bold Italic'')
               (set_info ''familyName'' (StrV ''My Font'') Font)"
  have s: "info_attr ?u ''styleName'' = StrV ''Bold Italic''"
    by (simp add: info_attr_def dict_get_def set_info_def)
  have f: "info_attr ?u ''familyName'' = StrV ''My Font''"
    by (simp add: info_attr_def dict_get_def set_info_def)
  have l: "str_lower ''Bold Italic'' = ''bold italic''"
    by (simp add: str_lower_def lower_char_def)
  have m: "str_lower ''Bold Italic'' \<in> set [''regular'', ''bold'', ''italic'', ''bold italic'']"
    by (simp add: l)
  show ?thesis
    using style_map_of_plain_style [OF s m] s m by (simp add: l f)
qed

text \<open>Claim C6 as stated fails for the style name \<^verbatim>\<open>Bold\<close>: the style-map style name
  becomes \<^verbatim>\<open>bold\<close>, which is not the style name character for character.\<close>

theorem style_map_of_plain_style_counterexample:
  "str_lower ''Bold'' \<in> set [''regular'', ''bold'', ''italic'', ''bold italic'']
   \<and> \<not> isl (set_redundant_data (set_info ''styleName'' (StrV ''Bold'')
               (set_info ''familyName'' (StrV ''My Font'') Font)))
   \<and> info (projr (set_redundant_data (set_info ''styleName'' (StrV ''Bold'')
               (set_info ''familyName'' (StrV ''My Font'') Font)))) ''styleMapStyleName''
       = Some (StrV ''bold'')
   \<and> Some (StrV ''bold'') \<noteq> Some (StrV ''Bold'')"
proof -
  let ?u = "set_info ''styleName'' (StrV ''Bold'')
               (set_info ''familyName'' (StrV ''My Font'') Font)"
  have s: "info_attr ?u ''styleName'' = StrV ''Bold''"
    by (simp add: info_attr_def dict_get_def set_info_def)
  have l: "str_lower ''Bold'' = ''bold''"
    by (simp add: str_lower_def lower_char_def)
  have m: "str_lower ''Bold'' \<in> set [''regular'', ''bold'', ''italic'', ''bold italic'']"
    by (simp add: l)
  from set_redundant_data_match [OF s m]
  obtain u' where "set_redundant_data ?u = Inr u'"
    and "info u' ''styleMapStyleName'' = Some (StrV ''bold'')"
    by (auto simp: l)
  then show ?thesis
    using m by simp
qed

text \<open>
  Claim C9. Whenever \<^verbatim>\<open>set_redundant_data\<close> returns, \<^verbatim>\<open>styleMapStyleName\<close> is one
  of the four texts \<^verbatim>\<open>regular\<close>, \<^verbatim>\<open>bold\<close>, \<^verbatim>\<open>italic\<close> and \<^verbatim>\<open>bold italic\<close>; and it
  returns whenever the style name and the family name of the font are texts, as they
  are for every master.
\<close>

theorem style_map_style_name_one_of_four:
  "(set_redundant_data u = Inr u' \<longrightarrow>
      info u' ''styleMapStyleName'' \<in>
        {Some (StrV ''regular''), Some (StrV ''bold''), Some (StrV ''italic''),
         Some (StrV ''bold italic'')})
   \<and> (info_attr u ''styleName'' = StrV s \<and> info_attr u ''familyName'' = StrV f \<longrightarrow>
        \<not> isl (set_redundant_data u))"
proof (intro conjI impI)
  assume ok: "set_redundant_data u = Inr u'"
  then obtain s' where s': "info_attr u ''styleName'' = StrV s'"
    using set_redundant_data_no_style [of u] by auto
  show "info u' ''styleMapStyleName'' \<in>
        {Some (StrV ''regular''), Some (StrV ''bold''), Some (StrV ''italic''),
         Some (StrV ''bold italic'')}"
  proof (cases "str_lower s' \<in> set [''regular'', ''bold'', ''italic'', ''bold italic'']")
    case True
    from set_redundant_data_match [OF s' True] ok True
    show ?thesis by auto
  next
    case False
    from set_redundant_data_other [OF s' False] ok
      style_map_style_name_cases [of "search_codes WEIGHT_CODES s'" s']
    show ?thesis by auto
  qed
next
  assume texts: "info_attr u ''styleName'' = StrV s \<and> info_attr u ''familyName'' = StrV f"
  show "\<not> isl (set_redundant_data u)"
  proof (cases "str_lower s \<in> set [''regular'', ''bold'', ''italic'', ''bold italic'']")
    case True
    from set_redundant_data_match [OF _ True, of u] texts
    show ?thesis by auto
  next
    case False
    from set_redundant_data_other [OF _ False, of u] texts
    show ?thesis by auto
  qed
qed

theorem style_map_style_name_one_of_four_witness:
  "\<not> isl (set_redundant_data (set_info ''styleName'' (StrV ''Condensed Bold Italic'')
               (set_info ''familyName'' (StrV ''My Font'') Font)))
   \<and> info (projr (set_redundant_data (set_info ''styleName'' (StrV ''Condensed Bold Italic'')
               (set_info ''familyName'' (StrV ''My Font'') Font)))) ''styleMapStyleName''
       \<in> {Some (StrV ''regular''), Some (StrV ''bold''), Some (StrV ''italic''),
          Some (StrV ''bold italic'')}"
proof -
  let ?u = "set_info ''styleName'' (StrV ''Condensed Bold Italic'')
               (set_info ''familyName'' (StrV ''My Font'') Font)"
  have s: "info_attr ?u ''styleName'' = StrV ''Condensed Bold Italic''"
    by (simp add: info_attr_def dict_get_def set_info_def)
  have f: "info_attr ?u ''familyName'' = StrV ''My Font''"
    by (simp add: info_attr_def dict_get_def set_info_def)
  have ok: "\<not> isl (set_redundant_data ?u)"
    using style_map_style_name_one_of_four [of ?u Font "''Condensed Bold Italic''" "''My Font''"]
      s f by blast
  then obtain u' where u': "set_redundant_data ?u = Inr u'"
    by (cases "set_redundant_data ?u") auto
  then show ?thesis
    using style_map_style_name_one_of_four [of ?u u' "''Condensed Bold Italic''" "''My Font''"]
    by simp
qed

section \<open>Properties of the custom parameters\<close>

lemma rewrite_param_hheaAscender:
  "rewrite_param (StrV ''hheaAscender'') (IntV 950) = Inr (''openTypeHheaAscender'', IntV 950)"
  by code_simp

lemma lib_set_info: "lib (set_info name v u) = lib u"
  by (simp add: set_info_def)

text \<open>
  Claim C8. The parameter \<^verbatim>\<open>("hheaAscender", 950)\<close> is renamed to
  \<^verbatim>\<open>openTypeHheaAscender\<close>. When the info object has an attribute of that name and the
  name is not in \<^verbatim>\<open>non_info\<close>, \<^verbatim>\<open>set_custom_params\<close> sets that attribute to 950 and
  changes nothing else of the font, so nothing is written to \<^verbatim>\<open>ufo.lib\<close>. This holds
  for the parameter given as parsed, and given in the \<^verbatim>\<open>customParameters\<close> of \<^verbatim>\<open>data\<close>.
\<close>

theorem set_custom_params_hheaAscender:
  assumes "has_attr ''openTypeHheaAscender''" and "''openTypeHheaAscender'' \<notin> set non_info"
  shows "rewrite_param (StrV ''hheaAscender'') (IntV 950) = Inr (''openTypeHheaAscender'', IntV 950)
    \<and> set_custom_params has_attr u (Some [(StrV ''hheaAscender'', IntV 950)]) None [] non_info =
        Inr (set_info ''openTypeHheaAscender'' (IntV 950) u, None)
    \<and> map_sum id fst
        (set_custom_params has_attr u None
          (Some [''customParameters'' \<mapsto>
                   ListV [DictV [(''name'', StrV ''hheaAscender''), (''value'', IntV 950)]]])
          [] non_info) =
        Inr (set_info ''openTypeHheaAscender'' (IntV 950) u)
    \<and> lib (set_info ''openTypeHheaAscender'' (IntV 950) u) = lib u
    \<and> info (set_info ''openTypeHheaAscender'' (IntV 950) u) ''openTypeHheaAscender'' =
        Some (IntV 950)"
proof -
  have one: "set_custom_param has_attr non_info u (StrV ''hheaAscender'', IntV 950) =
      Inr (set_info ''openTypeHheaAscender'' (IntV 950) u)"
    using assms by (simp add: set_custom_param_def rewrite_param_hheaAscender)
  have parsed: "parse_custom_params
      [''customParameters'' \<mapsto>
         ListV [DictV [(''name'', StrV ''hheaAscender''), (''value'', IntV 950)]]] [] =
      Inr ([(StrV ''hheaAscender'', IntV 950)],
           [''customParameters'' \<mapsto> ListV [DictV []]])"
    by (simp add: parse_custom_params_def alist_pop_def)
  show ?thesis
    by (simp add: set_custom_params_def one parsed rewrite_param_hheaAscender lib_set_info
          info_set_info)
qed

theorem set_custom_params_hheaAscender_witness:
  "set_custom_params (\<lambda>name. name \<in> set [''openTypeHheaAscender'', ''openTypeHheaDescender''])
      Font (Some [(StrV ''hheaAscender'', IntV 950)]) None [] [] =
     Inr (set_info ''openTypeHheaAscender'' (IntV 950) Font, None)
   \<and> lib (set_info ''openTypeHheaAscender'' (IntV 950) Font) = lib Font
   \<and> info (set_info ''openTypeHheaAscender'' (IntV 950) Font) ''openTypeHheaAscender'' =
        Some (IntV 950)"
  using set_custom_params_hheaAscender
    [of "\<lambda>name. name \<in> set [''openTypeHheaAscender'', ''openTypeHheaDescender'']" "[]" Font]
  by simp

section \<open>Properties of the kerning\<close>

lemma match_MMK_L_A: "re_match_prefix_rest ''@MMK_L_'' ''@MMK_L_A'' = Some ''A''"
  by (simp add: re_match_prefix_rest_def)

lemma match_MMK_L_A1: "re_match_prefix_rest ''@MMK_L_'' ''A1'' = None"
  by (simp add: re_match_prefix_rest_def)

lemma match_MMK_R_B: "re_match_prefix_rest ''@MMK_R_'' ''B'' = None"
  by (simp add: re_match_prefix_rest_def)

lemma match_MMK_R_class_B: "re_match_prefix_rest ''@MMK_R_'' ''@MMK_R_B'' = Some ''B''"
  by (simp add: re_match_prefix_rest_def)

text \<open>
  Claim C1, as the code has it. Let the group \<^verbatim>\<open>public.kern1.A\<close> of the font be
  \<^verbatim>\<open>["A1", "A2"]\<close>, and let the kerning data hold the class pair
  \<^verbatim>\<open>("@MMK_L_A", "B")\<close> with the value \<open>c\<close> and the glyph pair \<^verbatim>\<open>("A1", "B")\<close> with the
  value \<open>e\<close>, in either order. Then \<^verbatim>\<open>load_kerning\<close> writes the two entries
  \<^verbatim>\<open>("public.kern1.A", "B") = c\<close> and \<^verbatim>\<open>("A1", "B") = e\<close> and nothing else: the rule
  of the class stays an entry of the class, no entry is made for \<^verbatim>\<open>("A2", "B")\<close>, and
  there is no warning.
\<close>

theorem load_kerning_class_with_explicit_pair:
  assumes "groups u ''public.kern1.A'' = Some [''A1'', ''A2'']"
  shows "load_kerning u [(''@MMK_L_A'', [(''B'', c)]), (''A1'', [(''B'', e)])] =
      Inr (u\<lparr>kerning := (kerning u)((''public.kern1.A'', ''B'') \<mapsto> c, (''A1'', ''B'') \<mapsto> e)\<rparr>, [])
    \<and> load_kerning u [(''A1'', [(''B'', e)]), (''@MMK_L_A'', [(''B'', c)])] =
      Inr (u\<lparr>kerning := (kerning u)((''A1'', ''B'') \<mapsto> e, (''public.kern1.A'', ''B'') \<mapsto> c)\<rparr>, [])"
  using assms
  by (simp add: load_kerning_def match_MMK_L_A match_MMK_L_A1 match_MMK_R_B
        remove_rule_if_conflict_def member_pair_def Let_def)

theorem load_kerning_class_with_explicit_pair_witness:
  "groups (Font\<lparr>groups := [''public.kern1.A'' \<mapsto> [''A1'', ''A2'']]\<rparr>) ''public.kern1.A'' =
      Some [''A1'', ''A2'']
   \<and> load_kerning (Font\<lparr>groups := [''public.kern1.A'' \<mapsto> [''A1'', ''A2'']]\<rparr>)
        [(''@MMK_L_A'', [(''B'', -40)]), (''A1'', [(''B'', -10)])] =
      Inr (Font\<lparr>groups := [''public.kern1.A'' \<mapsto> [''A1'', ''A2'']],
                 kerning := [(''public.kern1.A'', ''B'') \<mapsto> -40, (''A1'', ''B'') \<mapsto> -10]\<rparr>, [])"
proof -
  let ?u = "Font\<lparr>groups := [''public.kern1.A'' \<mapsto> [''A1'', ''A2'']]\<rparr>"
  have g: "groups ?u ''public.kern1.A'' = Some [''A1'', ''A2'']" by simp
  show ?thesis
    using load_kerning_class_with_explicit_pair [OF g, of "-40" "-10"]
    by (simp add: Font_def)
qed

text \<open>Claim C1 as stated fails on its own input: after the load there is no entry for
  \<^verbatim>\<open>("A2", "B")\<close>, and no warning has been given.\<close>

theorem load_kerning_class_with_explicit_pair_counterexample:
  "\<not> isl (load_kerning (Font\<lparr>groups := [''public.kern1.A'' \<mapsto> [''A1'', ''A2'']]\<rparr>)
            [(''@MMK_L_A'', [(''B'', -40)]), (''A1'', [(''B'', -10)])])
   \<and> kerning (fst (projr (load_kerning (Font\<lparr>groups := [''public.kern1.A'' \<mapsto> [''A1'', ''A2'']]\<rparr>)
            [(''@MMK_L_A'', [(''B'', -40)]), (''A1'', [(''B'', -10)])]))) (''A2'', ''B'') = None
   \<and> kerning (fst (projr (load_kerning (Font\<lparr>groups := [''public.kern1.A'' \<mapsto> [''A1'', ''A2'']]\<rparr>)
            [(''@MMK_L_A'', [(''B'', -40)]), (''A1'', [(''B'', -10)])]))) (''A1'', ''B'') = Some (-10)
   \<and> snd (projr (load_kerning (Font\<lparr>groups := [''public.kern1.A'' \<mapsto> [''A1'', ''A2'']]\<rparr>)
            [(''@MMK_L_A'', [(''B'', -40)]), (''A1'', [(''B'', -10)])])) = []"
  by (simp add: load_kerning_def match_MMK_L_A match_MMK_L_A1 match_MMK_R_B
        remove_rule_if_conflict_def member_pair_def Let_def Font_def)

text \<open>The warning and the entry for \<^verbatim>\<open>("A2", "B")\<close> come about when the other rule for
  \<^verbatim>\<open>A1\<close> is itself a rule with a class, here \<^verbatim>\<open>("A1", "@MMK_R_B")\<close>: the rules are
  compared through the pairs of glyphs they stand for, and \<^verbatim>\<open>("A1", "B")\<close> is taken
  out of the rule that comes first in the data.\<close>

lemma load_kerning_two_class_rules:
  "load_kerning (Font\<lparr>groups := [''public.kern1.A'' \<mapsto> [''A1'', ''A2''],
                                   ''public.kern2.B'' \<mapsto> [''B'']]\<rparr>)
        [(''@MMK_L_A'', [(''B'', -40)]), (''A1'', [(''@MMK_R_B'', -10)])] =
      Inr (Font\<lparr>groups := [''public.kern1.A'' \<mapsto> [''A1'', ''A2''], ''public.kern2.B'' \<mapsto> [''B'']],
                 kerning := [(''A1'', ''public.kern2.B'') \<mapsto> -10, (''A2'', ''B'') \<mapsto> -40]\<rparr>,
           [ConflictingRules NoneV (''A1'', ''B'') (''A1'', ''public.kern2.B'', -10)
              (''public.kern1.A'', ''B'', -40)])"
  by (simp add: load_kerning_def match_MMK_L_A match_MMK_L_A1 match_MMK_R_B match_MMK_R_class_B
        remove_rule_if_conflict_def member_pair_def Let_def Font_def info_attr_def dict_get_def
        fun_upd_twist)

section \<open>Properties of the glyph loader\<close>

lemma bind_Inr: "bind r f = Inr y \<longleftrightarrow> (\<exists>x. r = Inr x \<and> f x = Inr y)"
  by (cases r) (auto simp: bind_def)

lemma color_entries_unicode_note:
  "color_entries (set_unicode_and_note gd g) = color_entries g"
  by (simp add: set_unicode_and_note_def color_entries_def Let_def)

lemma color_entries_last_change:
  "set_last_change gd g = Inr g' \<Longrightarrow> color_entries g' = color_entries g"
  by (auto simp: set_last_change_def Let_def bind_Inr color_entries_def set_glyph_lib_def
        glyphlib_prefix_def GLYPHS_PREFIX_def PUBLIC_PREFIX_def split: if_splits)

lemma color_entries_export_production:
  "color_entries (set_export_and_production gd g) = color_entries g"
  by (simp add: set_export_and_production_def Let_def color_entries_def set_glyph_lib_def
        glyphlib_prefix_def GLYPHS_PREFIX_def PUBLIC_PREFIX_def)

lemma color_entries_metrics_key:
  "fst kv \<in> {''leftMetricsKey'', ''rightMetricsKey'', ''widthMetricsKey''} \<Longrightarrow>
   color_entries (set_metrics_key gd kv g) = color_entries g"
  by (auto simp: set_metrics_key_def Let_def color_entries_def set_glyph_lib_def
        glyphlib_prefix_def GLYPHS_PREFIX_def PUBLIC_PREFIX_def)

lemma color_entries_metrics_keys:
  "color_entries (set_metrics_keys gd l g) = color_entries g"
  by (simp add: set_metrics_keys_def color_entries_metrics_key)

lemma color_entries_width: "color_entries (g\<lparr>glyph_width := w\<rparr>) = color_entries g"
  by (simp add: color_entries_def)

lemma color_entries_set_guidelines:
  "set_guidelines g l = Inr g' \<Longrightarrow> color_entries g' = color_entries g"
  by (auto simp: set_guidelines_def bind_Inr color_entries_def split: option.splits if_splits)

lemma color_entries_layer_blob:
  "fst kv \<in> {''annotations'', ''hints''} \<Longrightarrow>
   color_entries (set_layer_blob kv g) = color_entries g"
  by (auto simp: set_layer_blob_def color_entries_def set_glyph_lib_def
        glyphlib_prefix_def GLYPHS_PREFIX_def PUBLIC_PREFIX_def split: option.splits)

lemma color_entries_components_attribute:
  "color_entries (set_components_attribute kf l g) = color_entries g"
  by (cases kf) (simp add: set_components_attribute_def Let_def color_entries_def set_glyph_lib_def
        glyphlib_prefix_def GLYPHS_PREFIX_def PUBLIC_PREFIX_def)

lemma color_entries_components_attributes:
  "color_entries (set_components_attributes g l) = color_entries g"
  by (simp add: set_components_attributes_def color_entries_components_attribute)

lemma color_entries_libdata:
  assumes "load_glyph_libdata fl g l = Inr (g', fl')"
  shows "color_entries g' = color_entries g"
proof -
  from assms obtain g1 where g1: "set_guidelines g l = Inr g1"
    and g': "g' = set_components_attributes
              (foldl (\<lambda>g kv. set_layer_blob kv g) g1
                 [(''annotations'', annotations l), (''hints'', hints l)]) l"
    by (auto simp: load_glyph_libdata_def bind_Inr)
  show ?thesis
    using color_entries_set_guidelines [OF g1]
    by (simp add: g' color_entries_components_attributes color_entries_layer_blob)
qed

lemma color_entries_anchors:
  "add_anchors_to_glyph g as = Inr g' \<Longrightarrow> color_entries g' = color_entries g"
proof (induction as arbitrary: g)
  case Nil
  then show ?case by simp
next
  case (Cons a as)
  then show ?case
    by (auto simp: color_entries_def split: option.splits prod.splits)
qed

lemma color_entries_draw_layer:
  "draw_layer g l = Inr g' \<Longrightarrow> color_entries g' = color_entries g"
  by (auto simp: draw_layer_def bind_Inr dest!: color_entries_anchors)
     (simp add: color_entries_def)

lemma length_GLYPHS_COLORS: "length GLYPHS_COLORS = 12"
  by (simp add: GLYPHS_COLORS_def)

lemma set_color_in_range:
  assumes "gd ''color'' = Some (IntV c)" and "0 \<le> c" and "c \<le> 11"
  shows "\<exists>g'. set_color gd g = Inr g'
     \<and> color_entries g' = (Some (IntV c), Some (StrV (GLYPHS_COLORS ! nat c)))"
  using assms
  by (simp add: set_color_def dict_get_def mark_color_def Let_def length_GLYPHS_COLORS
        color_entries_def set_glyph_lib_def glyphlib_prefix_def GLYPHS_PREFIX_def PUBLIC_PREFIX_def)

lemma set_color_negative:
  assumes "gd ''color'' = Some (IntV c)" and "c < 0"
  shows "set_color gd g = Inr g"
  using assms by (simp add: set_color_def dict_get_def)

lemma set_color_too_large:
  assumes "gd ''color'' = Some (IntV c)" and "12 \<le> c"
  shows "set_color gd g = Inl IndexError"
  using assms
  by (simp add: set_color_def dict_get_def mark_color_def Let_def length_GLYPHS_COLORS)

lemma set_last_change_ok:
  assumes "dict_get gd ''lastChange'' NoneV \<in> insert NoneV (range TimeV)"
  shows "\<exists>g'. set_last_change gd g = Inr g'"
  using assms by (auto simp: set_last_change_def Let_def bind_def to_ufo_time_def)

lemma load_glyph_color_entries:
  assumes "load_glyph fl g l gd = Inr (g', fl')"
  shows "\<exists>g1 g2. set_last_change gd (set_unicode_and_note gd g) = Inr g1
     \<and> set_color gd g1 = Inr g2 \<and> color_entries g1 = color_entries g
     \<and> color_entries g' = color_entries g2"
proof -
  from assms obtain g1 g2 w g4 where
    g1: "set_last_change gd (set_unicode_and_note gd g) = Inr g1"
    and g2: "set_color gd g1 = Inr g2"
    and w: "width l = Some w"
    and g4: "load_glyph_libdata fl
        ((set_metrics_keys gd l (set_export_and_production gd g2))\<lparr>glyph_width := w\<rparr>) l =
        Inr (g4, fl')"
    and g5: "draw_layer g4 l = Inr g'"
    by (auto simp: load_glyph_def bind_Inr Let_def split: option.splits)
  have "color_entries g1 = color_entries g"
    using color_entries_last_change [OF g1] by (simp add: color_entries_unicode_note)
  moreover have "color_entries g' = color_entries g2"
    using color_entries_draw_layer [OF g5] color_entries_libdata [OF g4]
    by (simp add: color_entries_width color_entries_metrics_keys color_entries_export_production)
  ultimately show ?thesis using g1 g2 by blast
qed

text \<open>
  Claim C10. Let the glyph data have the colour index \<open>c\<close>. If \<open>0 \<le> c \<le> 11\<close> and
  \<^verbatim>\<open>load_glyph\<close> returns, the lib of the glyph has the index under
  \<^verbatim>\<open>com.schriftgestaltung.Glyphs.ColorIndex\<close> and the entry \<open>c\<close> of the twelve
  \<^verbatim>\<open>GLYPHS_COLORS\<close> under \<^verbatim>\<open>public.markColor\<close>. If \<open>c < 0\<close> and \<^verbatim>\<open>load_glyph\<close> returns, the
  two entries are as they were before. If \<open>c \<ge> 12\<close>, \<^verbatim>\<open>load_glyph\<close> raises the
  \<^verbatim>\<open>IndexError\<close> of the look-up in the table (given that the date of the last change,
  which is formatted before, is a date or absent).
\<close>

theorem load_glyph_mark_color:
  assumes "glyph_data ''color'' = Some (IntV c)"
  shows "(0 \<le> c \<and> c \<le> 11 \<and> load_glyph fl g l glyph_data = Inr (g', fl') \<longrightarrow>
            color_entries g' = (Some (IntV c), Some (StrV (GLYPHS_COLORS ! nat c))))
       \<and> (c < 0 \<and> load_glyph fl g l glyph_data = Inr (g', fl') \<longrightarrow>
            color_entries g' = color_entries g)
       \<and> (12 \<le> c \<and> dict_get glyph_data ''lastChange'' NoneV \<in> insert NoneV (range TimeV) \<longrightarrow>
            load_glyph fl g l glyph_data = Inl IndexError)
       \<and> length GLYPHS_COLORS = 12"
proof (intro conjI impI)
  assume a: "0 \<le> c \<and> c \<le> 11 \<and> load_glyph fl g l glyph_data = Inr (g', fl')"
  then obtain g1 g2 where "set_color glyph_data g1 = Inr g2"
    and "color_entries g' = color_entries g2"
    using load_glyph_color_entries by blast
  then show "color_entries g' = (Some (IntV c), Some (StrV (GLYPHS_COLORS ! nat c)))"
    using set_color_in_range [of glyph_data c g1] assms a by auto
next
  assume a: "c < 0 \<and> load_glyph fl g l glyph_data = Inr (g', fl')"
  then obtain g1 g2 where "set_color glyph_data g1 = Inr g2"
    and "color_entries g1 = color_entries g" and "color_entries g' = color_entries g2"
    using load_glyph_color_entries by blast
  then show "color_entries g' = color_entries g"
    using set_color_negative [of glyph_data c g1] assms a by auto
next
  assume a: "12 \<le> c \<and> dict_get glyph_data ''lastChange'' NoneV \<in> insert NoneV (range TimeV)"
  then obtain g1 where "set_last_change glyph_data (set_unicode_and_note glyph_data g) = Inr g1"
    using set_last_change_ok by blast
  then show "load_glyph fl g l glyph_data = Inl IndexError"
    using set_color_too_large [of glyph_data c g1] assms a by (simp add: load_glyph_def bind_def)
next
  show "length GLYPHS_COLORS = 12" by (rule length_GLYPHS_COLORS)
qed

theorem load_glyph_mark_color_witness:
  "\<not> isl (load_glyph Map.empty (newGlyph ''public.default'' ''A'') (width_only_layer 600)
            [''color'' \<mapsto> IntV 3])
   \<and> color_entries (fst (projr (load_glyph Map.empty (newGlyph ''public.default'' ''A'')
        (width_only_layer 600) [''color'' \<mapsto> IntV 3]))) =
       (Some (IntV 3), Some (StrV ''0.97,1,0,1''))
   \<and> \<not> isl (load_glyph Map.empty (newGlyph ''public.default'' ''A'') (width_only_layer 600)
            [''color'' \<mapsto> IntV (- 1)])
   \<and> color_entries (fst (projr (load_glyph Map.empty (newGlyph ''public.default'' ''A'')
        (width_only_layer 600) [''color'' \<mapsto> IntV (- 1)]))) = (None, None)
   \<and> load_glyph Map.empty (newGlyph ''public.default'' ''A'') (width_only_layer 600)
        [''color'' \<mapsto> IntV 12, ''lastChange'' \<mapsto> TimeV ''2016/08/01 12:00:00''] =
       Inl IndexError"
proof -
  let ?g = "newGlyph ''public.default'' ''A''"
  let ?l = "width_only_layer 600"
  have ok3: "\<not> isl (load_glyph Map.empty ?g ?l [''color'' \<mapsto> IntV 3])"
    by code_simp
  then obtain g3 fl3 where r3: "load_glyph Map.empty ?g ?l [''color'' \<mapsto> IntV 3] = Inr (g3, fl3)"
    by (cases "load_glyph Map.empty ?g ?l [''color'' \<mapsto> IntV 3]") auto
  have okn: "\<not> isl (load_glyph Map.empty ?g ?l [''color'' \<mapsto> IntV (- 1)])"
    by code_simp
  then obtain gn fln where rn: "load_glyph Map.empty ?g ?l [''color'' \<mapsto> IntV (- 1)] = Inr (gn, fln)"
    by (cases "load_glyph Map.empty ?g ?l [''color'' \<mapsto> IntV (- 1)]") auto
  have c3: "color_entries g3 = (Some (IntV 3), Some (StrV ''0.97,1,0,1''))"
    using load_glyph_mark_color [of "[''color'' \<mapsto> IntV 3]" 3 Map.empty ?g ?l g3 fl3] r3
    by (simp add: GLYPHS_COLORS_def)
  have cn: "color_entries gn = (None, None)"
    using load_glyph_mark_color [of "[''color'' \<mapsto> IntV (- 1)]" "- 1" Map.empty ?g ?l gn fln] rn
    by (simp add: color_entries_def newGlyph_def)
  have c12: "load_glyph Map.empty ?g ?l
        [''color'' \<mapsto> IntV 12, ''lastChange'' \<mapsto> TimeV ''2016/08/01 12:00:00''] = Inl IndexError"
    using load_glyph_mark_color
      [of "[''color'' \<mapsto> IntV 12, ''lastChange'' \<mapsto> TimeV ''2016/08/01 12:00:00'']" 12
          Map.empty ?g ?l]
    by (simp add: dict_get_def)
  show ?thesis
    using ok3 okn c3 cn c12 by (simp add: r3 rn)
qed

section \<open>Properties of the translation\<close>

lemma isl_required: "isl (required v) \<longleftrightarrow> v = None"
  by (cases v) (auto simp: required_def)






lemma isl_not_Inr: "isl r \<Longrightarrow> r \<noteq> Inr x"
  by (cases r) auto










end
